theory Spec2Isabelle
  imports Complex_Main "HOL-Library.AList" "HOL-Library.Log_Nat"
begin

section \<open>ROS messages and Python run-time values\<close>

text \<open>
  \<^verbatim>\<open>robot_api/core.py\<close> is dynamically typed: \<^verbatim>\<open>Base.move\<close> receives arbitrary
  positional and keyword arguments and inspects their run-time type. The messages it
  builds (\<^verbatim>\<open>geometry_msgs/Pose\<close>, \<^verbatim>\<open>move_base_msgs/MoveBaseGoal\<close>) are records; their
  numeric fields are modelled by their value as a real number (finite floats; NaN and
  infinities are outside the model).
\<close>

record Pose =
  pose_position :: "real \<times> real \<times> real"
  pose_orientation :: "real \<times> real \<times> real \<times> real"

record Header =
  header_frame_id :: string
  header_stamp :: real

record PoseStamped =
  ps_header :: Header
  ps_pose :: Pose

record MoveBaseGoal =
  target_pose :: PoseStamped

text \<open>
  The universe of Python values an argument of \<^verbatim>\<open>move\<close> can be: \<^verbatim>\<open>None\<close>, booleans,
  integers, floats, strings, lists, tuples, dicts and the two message classes. Other
  classes (for example numpy arrays) are outside the model.
\<close>

datatype pyval =
    PNone
  | PBool bool
  | PInt int
  | PFloat real
  | PStr string
  | PList "pyval list"
  | PTuple "pyval list"
  | PDict "(pyval \<times> pyval) list"
  | PPose Pose
  | PGoal MoveBaseGoal

datatype pyclass =
  C_NoneType | C_bool | C_int | C_float | C_str | C_list | C_tuple | C_dict | C_Pose | C_MoveBaseGoal

text \<open>
  The second argument of \<^verbatim>\<open>_isinstance\<close>: a plain class (\<^verbatim>\<open>get_origin\<close> is \<^verbatim>\<open>None\<close>) or a
  generic of \<^verbatim>\<open>typing\<close>. \<open>TTuple\<close> is \<^verbatim>\<open>Tuple[a1, ..., an]\<close> without an ellipsis,
  \<open>TSequence\<close> is \<^verbatim>\<open>Sequence\<close> or \<^verbatim>\<open>Sequence[a]\<close>, \<open>TMapping\<close> is \<^verbatim>\<open>Mapping\<close> or
  \<^verbatim>\<open>Mapping[k, v]\<close>. Generics of any other origin, for which the source raises
  \<^verbatim>\<open>NotImplementedError\<close>, are not values of this type.
\<close>

datatype pytype =
    TClass pyclass
  | TUnion "pytype list"
  | TTuple "pytype list"
  | TSequence "pytype option"
  | TMapping "(pytype \<times> pytype) option"

fun type_of :: "pyval \<Rightarrow> pyclass" where
  "type_of PNone = C_NoneType"
| "type_of (PBool b) = C_bool"
| "type_of (PInt i) = C_int"
| "type_of (PFloat r) = C_float"
| "type_of (PStr s) = C_str"
| "type_of (PList xs) = C_list"
| "type_of (PTuple xs) = C_tuple"
| "type_of (PDict kvs) = C_dict"
| "type_of (PPose p) = C_Pose"
| "type_of (PGoal g) = C_MoveBaseGoal"

text \<open>Python's built-in \<^verbatim>\<open>isinstance(obj, cls)\<close>; \<^verbatim>\<open>bool\<close> is a subclass of \<^verbatim>\<open>int\<close>.\<close>

definition isinstance :: "pyval \<Rightarrow> pyclass \<Rightarrow> bool" where
  "isinstance obj c = (type_of obj = c \<or> (type_of obj = C_bool \<and> c = C_int))"

text \<open>\<^verbatim>\<open>isinstance(obj, collections.abc.Sequence)\<close> and \<^verbatim>\<open>isinstance(obj, collections.abc.Mapping)\<close>.\<close>

fun is_sequence :: "pyval \<Rightarrow> bool" where
  "is_sequence (PStr s) = True"
| "is_sequence (PList xs) = True"
| "is_sequence (PTuple xs) = True"
| "is_sequence obj = False"

fun is_mapping :: "pyval \<Rightarrow> bool" where
  "is_mapping (PDict kvs) = True"
| "is_mapping obj = False"

text \<open>Iteration over a value (\<^verbatim>\<open>for element in obj\<close>) and \<^verbatim>\<open>obj.items()\<close>.\<close>

fun elements :: "pyval \<Rightarrow> pyval list" where
  "elements (PStr s) = map (\<lambda>c. PStr [c]) s"
| "elements (PList xs) = xs"
| "elements (PTuple xs) = xs"
| "elements (PDict kvs) = map fst kvs"
| "elements obj = []"

fun items :: "pyval \<Rightarrow> (pyval \<times> pyval) list" where
  "items (PDict kvs) = kvs"
| "items obj = []"

text \<open>Python truthiness (\<^verbatim>\<open>not position\<close>).\<close>

fun truthy :: "pyval \<Rightarrow> bool" where
  "truthy PNone = False"
| "truthy (PBool b) = b"
| "truthy (PInt i) = (i \<noteq> 0)"
| "truthy (PFloat r) = (r \<noteq> 0)"
| "truthy (PStr s) = (s \<noteq> [])"
| "truthy (PList xs) = (xs \<noteq> [])"
| "truthy (PTuple xs) = (xs \<noteq> [])"
| "truthy (PDict kvs) = (kvs \<noteq> [])"
| "truthy (PPose p) = True"
| "truthy (PGoal g) = True"

section \<open>\<^verbatim>\<open>_isinstance\<close> and \<^verbatim>\<open>_get_at\<close>\<close>

text \<open>
  \<^verbatim>\<open>_isinstance(obj, type_or_generic)\<close> (core.py, lines 14-30). The leading underscore
  of the source's names is written \<open>u_\<close>.
\<close>

function (sequential) u_isinstance :: "pyval \<Rightarrow> pytype \<Rightarrow> bool" where
  "u_isinstance obj (TClass c) = isinstance obj c"
| "u_isinstance obj (TUnion args) = list_ex (\<lambda>arg. u_isinstance obj arg) args"
| "u_isinstance obj (TTuple args) =
     (isinstance obj C_tuple \<and> length (elements obj) = length args
      \<and> list_all (\<lambda>(element, arg). u_isinstance element arg) (zip (elements obj) args))"
| "u_isinstance obj (TSequence None) = is_sequence obj"
| "u_isinstance obj (TSequence (Some arg)) =
     (is_sequence obj \<and> list_all (\<lambda>element. u_isinstance element arg) (elements obj))"
| "u_isinstance obj (TMapping None) = is_mapping obj"
| "u_isinstance obj (TMapping (Some (karg, varg))) =
     (is_mapping obj
      \<and> list_all (\<lambda>(k, v). u_isinstance k karg \<and> u_isinstance v varg) (items obj))"
  by pat_completeness auto
termination
proof (relation "measure (\<lambda>(obj, t). size t)")
  show "wf (measure (\<lambda>(obj, t). size t))" by simp
next
  fix obj :: pyval and args :: "pytype list" and arg :: pytype
  assume "arg \<in> set args"
  then show "((obj, arg), (obj, TUnion args)) \<in> measure (\<lambda>(obj, t). size t)"
    by (simp add: less_Suc_eq_le size_list_estimation')
next
  fix obj :: pyval and args :: "pytype list" and z :: "pyval \<times> pytype"
    and element :: pyval and arg :: pytype
  assume "z \<in> set (zip (elements obj) args)" "(element, arg) = z"
  then have "arg \<in> set args" by (auto dest: set_zip_rightD)
  then show "((element, arg), (obj, TTuple args)) \<in> measure (\<lambda>(obj, t). size t)"
    by (simp add: less_Suc_eq_le size_list_estimation')
qed auto

text \<open>
  \<^verbatim>\<open>_get_at(args, index, type_or_generic)\<close> (lines 33-36). \<^verbatim>\<open>move\<close> always passes its tuple
  of positional arguments and a literal index between 0 and 5, so \<open>args\<close> is a list and
  the index a natural number.
\<close>

definition u_get_at :: "pyval list \<Rightarrow> nat \<Rightarrow> pytype \<Rightarrow> pyval" where
  "u_get_at args index type_or_generic =
     (if length args > index \<and> u_isinstance (args ! index) type_or_generic
      then args ! index else PNone)"

text \<open>Keyword arguments are a dict from names to values; \<^verbatim>\<open>kwargs.get(key, default)\<close>.\<close>

type_synonym kwargs = "string \<rightharpoonup> pyval"

definition dict_get :: "kwargs \<Rightarrow> string \<Rightarrow> pyval \<Rightarrow> pyval" where
  "dict_get kwargs key dflt = (case kwargs key of Some v \<Rightarrow> v | None \<Rightarrow> dflt)"

section \<open>Exceptions, the waypoint store and the navigation actor\<close>

datatype exc =
    ValueError string
  | TypeError
  | OverflowError
  | AttributeError
  | LookupException
  | ExtrapolationException
  | ConnectivityException

text \<open>
  Modelled from the spec: \<^verbatim>\<open>Excepthook.expect\<close> of \<^verbatim>\<open>robot_api/excepthook.py\<close>, which is not
  among the source files. The spec calls the errors raised through it InvalidArguments
  and PoseUnavailable "carrying the original cause": \<open>Expected e\<close> is the error that
  carries \<open>e\<close>, \<open>Raised e\<close> is the exception \<open>e\<close> propagating as it is.
\<close>

datatype error = Raised exc | Expected exc

definition expect :: "exc \<Rightarrow> error" where
  "expect e = Expected e"

text \<open>
  Modelled from the spec: the canonical pose of \<^verbatim>\<open>robot_api/lib.py\<close> (\<^verbatim>\<open>TuplePose\<close>), a
  position \<open>(x, y, z)\<close> and an orientation \<open>(qx, qy, qz, qw)\<close>, with \<^verbatim>\<open>TuplePose.to_pose\<close>
  and \<^verbatim>\<open>TuplePose.from_pose\<close> mutual inverses (spec 4.1).
\<close>

type_synonym TuplePose = "(real \<times> real \<times> real) \<times> (real \<times> real \<times> real \<times> real)"

definition to_pose :: "TuplePose \<Rightarrow> Pose" where
  "to_pose tp = \<lparr>pose_position = fst tp, pose_orientation = snd tp\<rparr>"

definition from_pose :: "Pose \<Rightarrow> TuplePose" where
  "from_pose p = (pose_position p, pose_orientation p)"

text \<open>
  Modelled from the spec: what \<^verbatim>\<open>TuplePose.to_pose\<close> accepts when it is handed a run-time
  value. The spec defines a pose as a pair of a sequence of three and a sequence of four
  numbers; on any other value the model raises \<^verbatim>\<open>TypeError\<close>, where the spec is silent.
  A message field holds the number it is given, an integer or a boolean as it is, so a
  component is the exact value of the number (\<open>number_value\<close>); no conversion to a float
  takes place here.
\<close>

fun number_value :: "pyval \<Rightarrow> exc + real" where
  "number_value (PFloat r) = Inr r"
| "number_value (PInt i) = Inr (of_int i)"
| "number_value (PBool b) = Inr (of_bool b)"
| "number_value obj = Inl TypeError"

fun number_values :: "pyval list \<Rightarrow> exc + real list" where
  "number_values [] = Inr []"
| "number_values (v # vs) =
     (case number_value v of Inl e \<Rightarrow> Inl e
      | Inr r \<Rightarrow> (case number_values vs of Inl e \<Rightarrow> Inl e | Inr rs \<Rightarrow> Inr (r # rs)))"

definition as_tuple_pose :: "pyval \<Rightarrow> exc + TuplePose" where
  "as_tuple_pose v =
     (if is_sequence v \<and> length (elements v) = 2
         \<and> is_sequence (elements v ! 0) \<and> is_sequence (elements v ! 1) then
        (case (number_values (elements (elements v ! 0)),
               number_values (elements (elements v ! 1))) of
           (Inr [x, y, z], Inr [qx, qy, qz, qw]) \<Rightarrow> Inr ((x, y, z), (qx, qy, qz, qw))
         | _ \<Rightarrow> Inl TypeError)
      else Inl TypeError)"

definition TuplePose_to_pose :: "pyval \<Rightarrow> exc + Pose" where
  "TuplePose_to_pose v = (case as_tuple_pose v of Inl e \<Rightarrow> Inl e | Inr tp \<Rightarrow> Inr (to_pose tp))"

text \<open>
  The program state the movement methods read and write: the process-wide
  \<^verbatim>\<open>Storage.waypoints\<close> (a dict in insertion order, hence an association list), whether
  the \<^verbatim>\<open>move_base\<close> action client is connected, the messages given to \<^verbatim>\<open>rospy.logerr\<close>
  and \<^verbatim>\<open>rospy.logdebug\<close>, and the calls made on the action client.
\<close>

type_synonym callback = nat

datatype log_entry = LogErr string | LogDebug string

datatype sent_goal =
    SendGoalAndWait MoveBaseGoal real
  | SendGoal MoveBaseGoal callback

record world =
  waypoints :: "(string \<times> TuplePose) list"
  nav_connected :: bool
  rospy_log :: "log_entry list"
  sent :: "sent_goal list"

text \<open>
  What lies outside \<^verbatim>\<open>core.py\<close> is a parameter: the \<^verbatim>\<open>tf\<close> and \<^verbatim>\<open>actionlib\<close> libraries, the
  clock, Python's formatting of floats, and the helpers of \<^verbatim>\<open>robot_api/lib.py\<close> that the
  spec leaves open (the generated waypoint name, the reverse lookup of a custom name, the
  listing of the store).
\<close>

record env =
  move_base_available :: bool
  quaternion_from_euler :: "real \<Rightarrow> real \<Rightarrow> real \<Rightarrow> real \<times> real \<times> real \<times> real"
  time_now :: real
  goal_status :: "MoveBaseGoal \<Rightarrow> real \<Rightarrow> int"
  generic_waypoint_name :: "(string \<times> TuplePose) list \<Rightarrow> TuplePose \<Rightarrow> string"
  get_custom_waypoint_name :: "(string \<times> TuplePose) list \<Rightarrow> TuplePose \<Rightarrow> string option"
  waypoints_to_str :: "(string \<times> TuplePose) list \<Rightarrow> string"
  str_of_pose :: "TuplePose \<Rightarrow> string"
  str_of_float :: "real \<Rightarrow> string"

type_synonym result = "(error + pyval) \<times> world"

definition logerr :: "string \<Rightarrow> world \<Rightarrow> world" where
  "logerr msg s = s\<lparr>rospy_log := rospy_log s @ [LogErr msg]\<rparr>"

definition logdebug :: "string \<Rightarrow> world \<Rightarrow> world" where
  "logdebug msg s = s\<lparr>rospy_log := rospy_log s @ [LogDebug msg]\<rparr>"

text \<open>
  Modelled from the spec: \<^verbatim>\<open>ActionlibComponent._connect\<close> of \<^verbatim>\<open>robot_api/lib.py\<close>. The
  connection to the navigation actor is established lazily on first use and kept; the
  call returns whether a connection exists (spec 4.5 and 6, \<^verbatim>\<open>connect(name) -> bool\<close>).
\<close>

definition u_connect :: "env \<Rightarrow> world \<Rightarrow> bool \<times> world" where
  "u_connect env s =
     (if nav_connected s then (True, s)
      else if move_base_available env then (True, s\<lparr>nav_connected := True\<rparr>)
      else (False, s))"

text \<open>
  Modelled from the spec: \<^verbatim>\<open>Storage._add_generic_waypoint\<close> of \<^verbatim>\<open>robot_api/lib.py\<close>
  (spec 4.2, \<^verbatim>\<open>addGeneric\<close>): the pose is stored under a generated name. The name scheme
  is left open by the spec and is the parameter \<open>generic_waypoint_name\<close>; the spec's
  guarantee that the generated name is not in use is the predicate \<open>fresh_name\<close>.
  Assignment to a dict key is \<open>AList.update\<close>.
\<close>

definition u_add_generic_waypoint :: "env \<Rightarrow> TuplePose \<Rightarrow> world \<Rightarrow> world" where
  "u_add_generic_waypoint env pose s =
     s\<lparr>waypoints := AList.update (generic_waypoint_name env (waypoints s) pose) pose (waypoints s)\<rparr>"

definition fresh_name :: "env \<Rightarrow> (string \<times> TuplePose) list \<Rightarrow> TuplePose \<Rightarrow> bool" where
  "fresh_name env store pose = (generic_waypoint_name env store pose \<notin> set (map fst store))"

section \<open>The movement methods of \<^verbatim>\<open>Base\<close>\<close>

definition quote :: string where
  "quote = [CHR 0x27]"

definition newline :: string where
  "newline = [CHR 0x0A]"

text \<open>\<^verbatim>\<open>Base.move_to_goal\<close> (lines 88-107).\<close>

definition move_to_goal :: "env \<Rightarrow> pyval \<Rightarrow> real \<Rightarrow> callback option \<Rightarrow> world \<Rightarrow> result" where
  "move_to_goal env goal timeout done_cb s =
     (let (ok, s1) = u_connect env s in
      if \<not> ok then (Inr PNone, logerr ''Did you launch the move_base node?'' s1)
      else
        (case goal of
           PGoal g \<Rightarrow>
             (let pose = from_pose (ps_pose (target_pose g));
                  is_new_goal = (pose \<notin> set (map snd (waypoints s1)));
                  custom_goal_name = get_custom_waypoint_name env (waypoints s1) pose;
                  s2 = logdebug (''Sending '' @ (if is_new_goal then ''new '' else '''')
                         @ ''navigation goal ''
                         @ (case custom_goal_name of
                              None \<Rightarrow> ''''
                            | Some n \<Rightarrow> (if n \<noteq> [] then quote @ n @ quote @ '' '' else ''''))
                         @ str_of_pose env pose @ '' ...'') s1;
                  s3 = (if is_new_goal then u_add_generic_waypoint env pose s2 else s2)
              in (case done_cb of
                    None \<Rightarrow>
                      (let s4 = logdebug (''Waiting for navigation result with timeout of ''
                                  @ str_of_float env timeout @ '' s ...'') s3
                       in (Inr (PInt (goal_status env g timeout)),
                           s4\<lparr>sent := sent s4 @ [SendGoalAndWait g timeout]\<rparr>))
                  | Some cb \<Rightarrow> (Inr PNone, s3\<lparr>sent := sent s3 @ [SendGoal g cb]\<rparr>)))
         | _ \<Rightarrow> (Inl (Raised AttributeError), s1)))"

text \<open>\<^verbatim>\<open>Base.move_to_pose\<close> (lines 109-116).\<close>

definition move_to_pose ::
  "env \<Rightarrow> Pose \<Rightarrow> string \<Rightarrow> real \<Rightarrow> callback option \<Rightarrow> world \<Rightarrow> result" where
  "move_to_pose env pose frame_id timeout done_cb s =
     move_to_goal env
       (PGoal \<lparr>target_pose =
          \<lparr>ps_header = \<lparr>header_frame_id = frame_id, header_stamp = time_now env\<rparr>,
           ps_pose = pose\<rparr>\<rparr>)
       timeout done_cb s"

text \<open>\<^verbatim>\<open>Base.move_to_tuple_pose\<close> (lines 118-121).\<close>

definition move_to_tuple_pose ::
  "env \<Rightarrow> pyval \<Rightarrow> string \<Rightarrow> real \<Rightarrow> callback option \<Rightarrow> world \<Rightarrow> result" where
  "move_to_tuple_pose env pose frame_id timeout done_cb s =
     (case TuplePose_to_pose pose of
        Inl e \<Rightarrow> (Inl (Raised e), s)
      | Inr p \<Rightarrow> move_to_pose env p frame_id timeout done_cb s)"

text \<open>\<^verbatim>\<open>Base.move_to_position_and_orientation\<close> (lines 123-129).\<close>

definition move_to_position_and_orientation ::
  "env \<Rightarrow> pyval \<Rightarrow> pyval \<Rightarrow> string \<Rightarrow> real \<Rightarrow> callback option \<Rightarrow> world \<Rightarrow> result" where
  "move_to_position_and_orientation env position orientation frame_id timeout done_cb s =
     (case TuplePose_to_pose (PTuple [position, orientation]) of
        Inl e \<Rightarrow> (Inl (Raised e), s)
      | Inr p \<Rightarrow> move_to_pose env p frame_id timeout done_cb s)"

text \<open>
  Python's conversion of an integer to a float, which the division of an integer by a
  float makes. Every integer up to \<open>2 ^ 53\<close> in absolute value is a float; a larger one
  is rounded to the nearest float (53 significant bits, ties to the even one); one that
  would round to \<open>2 ^ 1024\<close> or beyond, that is one of absolute value at least
  \<open>2 ^ 1024 - 2 ^ 970\<close>, raises \<^verbatim>\<open>OverflowError\<close>.
\<close>

definition overflow_bound :: int where
  "overflow_bound = 2 ^ 1024 - 2 ^ 970"

definition nearest_double :: "int \<Rightarrow> real" where
  "nearest_double i =
     (if \<bar>i\<bar> \<le> 2 ^ 53 then of_int i
      else
        (let m = \<bar>i\<bar>;
             ulp = 2 ^ (nat (bitlen m) - 53);
             q = m div ulp;
             r = m mod ulp;
             n = (if 2 * r < ulp \<or> (2 * r = ulp \<and> even q) then q else q + 1)
         in of_int (sgn i * n * ulp)))"

text \<open>
  The operand of \<^verbatim>\<open>v / 2.0\<close> as a float: a float is itself, a boolean is 0 or 1, an
  integer is converted or raises \<^verbatim>\<open>OverflowError\<close>, and any other value of the universe
  raises \<^verbatim>\<open>TypeError\<close>.
\<close>

fun py_float :: "pyval \<Rightarrow> exc + real" where
  "py_float (PFloat r) = Inr r"
| "py_float (PInt i) =
     (if overflow_bound \<le> \<bar>i\<bar> then Inl OverflowError else Inr (nearest_double i))"
| "py_float (PBool b) = Inr (of_bool b)"
| "py_float obj = Inl TypeError"

text \<open>
  \<^verbatim>\<open>tf.transformations.quaternion_from_euler(roll, pitch, yaw)\<close> on run-time values. The
  function halves its arguments in turn (\<^verbatim>\<open>ai /= 2.0\<close>, \<^verbatim>\<open>aj /= 2.0\<close>, \<^verbatim>\<open>ak /= 2.0\<close>), which
  converts each to a float or raises, the first failure ending the call; on floats it is
  the parameter \<open>quaternion_from_euler\<close> of \<open>env\<close>.
\<close>

definition py_quaternion_from_euler :: "env \<Rightarrow> pyval \<Rightarrow> pyval \<Rightarrow> pyval \<Rightarrow> exc + pyval" where
  "py_quaternion_from_euler env roll pitch yaw =
     (case py_float roll of
        Inl e \<Rightarrow> Inl e
      | Inr r \<Rightarrow>
          (case py_float pitch of
             Inl e \<Rightarrow> Inl e
           | Inr p \<Rightarrow>
               (case py_float yaw of
                  Inl e \<Rightarrow> Inl e
                | Inr w \<Rightarrow>
                    (case quaternion_from_euler env r p w of
                       (qx, qy, qz, qw) \<Rightarrow>
                         Inr (PList [PFloat qx, PFloat qy, PFloat qz, PFloat qw])))))"

text \<open>\<^verbatim>\<open>Base.move_to_coordinates\<close> (lines 131-138).\<close>

definition move_to_coordinates ::
  "env \<Rightarrow> pyval \<Rightarrow> pyval \<Rightarrow> pyval \<Rightarrow> pyval \<Rightarrow> pyval \<Rightarrow> pyval
     \<Rightarrow> string \<Rightarrow> real \<Rightarrow> callback option \<Rightarrow> world \<Rightarrow> result" where
  "move_to_coordinates env x y z roll pitch yaw frame_id timeout done_cb s =
     (case py_quaternion_from_euler env roll pitch yaw of
        Inl e \<Rightarrow> (Inl (Raised e), s)
      | Inr q \<Rightarrow>
          (case TuplePose_to_pose (PTuple [PTuple [x, y, z], q]) of
             Inl e \<Rightarrow> (Inl (Raised e), s)
           | Inr p \<Rightarrow> move_to_pose env p frame_id timeout done_cb s))"

text \<open>
  \<^verbatim>\<open>Base.move_to_waypoint\<close> (lines 140-153). \<^verbatim>\<open>name not in Storage.waypoints.keys()\<close> is the
  lookup returning \<open>None\<close>.
\<close>

definition move_to_waypoint ::
  "env \<Rightarrow> string \<Rightarrow> string \<Rightarrow> real \<Rightarrow> callback option \<Rightarrow> world \<Rightarrow> result" where
  "move_to_waypoint env name frame_id timeout done_cb s =
     (case map_of (waypoints s) name of
        None \<Rightarrow>
          (if waypoints s \<noteq> [] then
             (Inr PNone,
              logerr (''Waypoint '' @ quote @ name @ quote @ '' does not exist. Available waypoints:''
                      @ newline @ waypoints_to_str env (waypoints s)) s)
           else
             (Inr PNone,
              logerr (''No waypoints defined yet, so cannot use waypoint '' @ quote @ name @ quote
                      @ ''.'') s))
      | Some wp \<Rightarrow> move_to_pose env (to_pose wp) frame_id timeout done_cb s)"

section \<open>\<^verbatim>\<open>Base.move\<close>: resolution of the call shape\<close>

text \<open>The generic \<^verbatim>\<open>Union[Pose, Tuple[Sequence[float], Sequence[float]]]\<close> of line 189.\<close>

definition pose_type :: pytype where
  "pose_type =
     TUnion [TClass C_Pose,
             TTuple [TSequence (Some (TClass C_float)), TSequence (Some (TClass C_float))]]"

text \<open>The local variables of \<^verbatim>\<open>move\<close> (lines 187-197), as functions of the arguments.\<close>

definition arg_goal :: "pyval list \<Rightarrow> kwargs \<Rightarrow> pyval" where
  "arg_goal args kwargs = dict_get kwargs ''goal'' (u_get_at args 0 (TClass C_MoveBaseGoal))"

definition arg_pose :: "pyval list \<Rightarrow> kwargs \<Rightarrow> pyval" where
  "arg_pose args kwargs = dict_get kwargs ''pose'' (u_get_at args 0 pose_type)"

definition arg_position :: "pyval list \<Rightarrow> kwargs \<Rightarrow> pyval" where
  "arg_position args kwargs =
     dict_get kwargs ''position'' (u_get_at args 0 (TSequence (Some (TClass C_float))))"

definition arg_orientation :: "pyval list \<Rightarrow> kwargs \<Rightarrow> pyval" where
  "arg_orientation args kwargs =
     dict_get kwargs ''orientation'' (u_get_at args 1 (TSequence (Some (TClass C_float))))"

definition arg_x :: "pyval list \<Rightarrow> kwargs \<Rightarrow> pyval" where
  "arg_x args kwargs = dict_get kwargs ''x'' (u_get_at args 0 (TClass C_float))"

definition arg_y :: "pyval list \<Rightarrow> kwargs \<Rightarrow> pyval" where
  "arg_y args kwargs = dict_get kwargs ''y'' (u_get_at args 1 (TClass C_float))"

definition arg_z :: "pyval list \<Rightarrow> kwargs \<Rightarrow> pyval" where
  "arg_z args kwargs =
     dict_get kwargs ''z'' (if length args > 3 then u_get_at args 2 (TClass C_float) else PFloat 0)"

definition arg_roll :: "pyval list \<Rightarrow> kwargs \<Rightarrow> pyval" where
  "arg_roll args kwargs =
     dict_get kwargs ''roll'' (if length args \<ge> 4 then u_get_at args 3 (TClass C_float) else PFloat 0)"

definition arg_pitch :: "pyval list \<Rightarrow> kwargs \<Rightarrow> pyval" where
  "arg_pitch args kwargs =
     dict_get kwargs ''pitch'' (if length args \<ge> 5 then u_get_at args 4 (TClass C_float) else PFloat 0)"

definition arg_yaw :: "pyval list \<Rightarrow> kwargs \<Rightarrow> pyval" where
  "arg_yaw args kwargs =
     dict_get kwargs ''yaw'' (u_get_at args (if length args \<ge> 6 then 5 else 2) (TClass C_float))"

definition shapes_message :: string where
  "shapes_message =
     ''1. Goal, 2. pose, 3. position and orientation, or 4. x, y, and yaw must be specified.''"

definition both_message :: string where
  "both_message =
     ''Both '' @ quote @ ''position'' @ quote @ '' and '' @ quote @ ''orientation'' @ quote
     @ '' parameters must be specified.''"

text \<open>\<^verbatim>\<open>Base.move\<close> (lines 185-213).\<close>

definition move ::
  "env \<Rightarrow> pyval list \<Rightarrow> kwargs \<Rightarrow> string \<Rightarrow> real \<Rightarrow> callback option \<Rightarrow> world \<Rightarrow> result" where
  "move env args kwargs frame_id timeout done_cb s =
     (let goal = arg_goal args kwargs;
          pose = arg_pose args kwargs;
          position = arg_position args kwargs;
          orientation = arg_orientation args kwargs;
          x = arg_x args kwargs;
          y = arg_y args kwargs;
          z = arg_z args kwargs;
          roll = arg_roll args kwargs;
          pitch = arg_pitch args kwargs;
          yaw = arg_yaw args kwargs
      in
        if goal = PNone then
          if pose = PNone then
            if \<not> truthy position \<or> \<not> truthy orientation then
              if \<not> truthy position \<and> \<not> truthy orientation then
                if x = PNone \<or> y = PNone \<or> yaw = PNone then
                  (Inl (expect (ValueError shapes_message)), s)
                else move_to_coordinates env x y z roll pitch yaw frame_id timeout done_cb s
              else (Inl (expect (ValueError both_message)), s)
            else move_to_position_and_orientation env position orientation frame_id timeout done_cb s
          else
            (case pose of
               PPose p \<Rightarrow> move_to_pose env p frame_id timeout done_cb s
             | _ \<Rightarrow> move_to_tuple_pose env pose frame_id timeout done_cb s)
        else move_to_goal env goal timeout done_cb s)"

section \<open>The call shapes as the specification orders them\<close>

text \<open>
  The specification's reading of the resolution, in its own words: four groups of fields
  in a fixed precedence order, "first shape whose required fields are all present wins",
  and InvalidArguments naming the acceptable shapes when none is complete. A field is
  present as the source tests it: a goal or a pose that is not \<^verbatim>\<open>None\<close>, a position and an
  orientation that are truthy, and \<open>x\<close>, \<open>y\<close>, \<open>yaw\<close> that are not \<^verbatim>\<open>None\<close>. \<open>spec_move\<close> is
  this reading; it is compared with \<open>move\<close> below.
\<close>

datatype shape = GoalShape | PoseShape | PositionOrientationShape | CoordinatesShape

definition precedence :: "shape list" where
  "precedence = [GoalShape, PoseShape, PositionOrientationShape, CoordinatesShape]"

fun shape_complete :: "pyval list \<Rightarrow> kwargs \<Rightarrow> shape \<Rightarrow> bool" where
  "shape_complete args kwargs GoalShape = (arg_goal args kwargs \<noteq> PNone)"
| "shape_complete args kwargs PoseShape = (arg_pose args kwargs \<noteq> PNone)"
| "shape_complete args kwargs PositionOrientationShape =
     (truthy (arg_position args kwargs) \<and> truthy (arg_orientation args kwargs))"
| "shape_complete args kwargs CoordinatesShape =
     (arg_x args kwargs \<noteq> PNone \<and> arg_y args kwargs \<noteq> PNone \<and> arg_yaw args kwargs \<noteq> PNone)"

fun dispatch ::
  "env \<Rightarrow> pyval list \<Rightarrow> kwargs \<Rightarrow> string \<Rightarrow> real \<Rightarrow> callback option \<Rightarrow> world \<Rightarrow> shape \<Rightarrow> result" where
  "dispatch env args kwargs frame_id timeout done_cb s GoalShape =
     move_to_goal env (arg_goal args kwargs) timeout done_cb s"
| "dispatch env args kwargs frame_id timeout done_cb s PoseShape =
     (case arg_pose args kwargs of
        PPose p \<Rightarrow> move_to_pose env p frame_id timeout done_cb s
      | v \<Rightarrow> move_to_tuple_pose env v frame_id timeout done_cb s)"
| "dispatch env args kwargs frame_id timeout done_cb s PositionOrientationShape =
     move_to_position_and_orientation env (arg_position args kwargs) (arg_orientation args kwargs)
       frame_id timeout done_cb s"
| "dispatch env args kwargs frame_id timeout done_cb s CoordinatesShape =
     move_to_coordinates env (arg_x args kwargs) (arg_y args kwargs) (arg_z args kwargs)
       (arg_roll args kwargs) (arg_pitch args kwargs) (arg_yaw args kwargs)
       frame_id timeout done_cb s"

definition spec_move ::
  "env \<Rightarrow> pyval list \<Rightarrow> kwargs \<Rightarrow> string \<Rightarrow> real \<Rightarrow> callback option \<Rightarrow> world \<Rightarrow> result" where
  "spec_move env args kwargs frame_id timeout done_cb s =
     (case find (shape_complete args kwargs) precedence of
        Some sh \<Rightarrow> dispatch env args kwargs frame_id timeout done_cb s sh
      | None \<Rightarrow> (Inl (expect (ValueError shapes_message)), s))"

text \<open>Exactly one of position and orientation is present, and neither a goal nor a pose.\<close>

definition partial_pair :: "pyval list \<Rightarrow> kwargs \<Rightarrow> bool" where
  "partial_pair args kwargs =
     (arg_goal args kwargs = PNone \<and> arg_pose args kwargs = PNone
      \<and> truthy (arg_position args kwargs) \<noteq> truthy (arg_orientation args kwargs))"

section \<open>\<^verbatim>\<open>Base.get_pose\<close>: the pose query\<close>

text \<open>
  The pose service and the clock are parameters. \<open>lookupTransform tf ref frame n\<close> is the
  outcome of the \<open>n\<close>-th call of \<^verbatim>\<open>self._tf_listener.lookupTransform\<close> that one call of
  \<^verbatim>\<open>get_pose\<close> makes (\<open>n = 0\<close> is the initial attempt). \<^verbatim>\<open>tf.LookupException\<close>,
  \<^verbatim>\<open>tf.ExtrapolationException\<close> and \<^verbatim>\<open>tf.ConnectivityException\<close> are distinct subclasses
  of \<^verbatim>\<open>tf.Exception\<close>, none a subclass of another. \<^verbatim>\<open>time.sleep(1.0)\<close> suspends for at
  least one second: the \<open>n\<close>-th retry (sleep and lookup) takes one second plus
  \<open>retry_overrun tf n\<close> microseconds. Time is counted in seconds from \<^verbatim>\<open>time_start\<close>.
\<close>

record tf_env =
  lookupTransform :: "string \<Rightarrow> string \<Rightarrow> nat \<Rightarrow> exc + TuplePose"
  retry_overrun :: "nat \<Rightarrow> nat"

text \<open>
  The \<^verbatim>\<open>while\<close> loop of lines 58-65. The result is \<open>None\<close> when the loop ends without
  returning, with the time elapsed; inside the loop only \<^verbatim>\<open>tf.LookupException\<close> is caught.
\<close>

function retry_loop ::
  "tf_env \<Rightarrow> string \<Rightarrow> string \<Rightarrow> real \<Rightarrow> real \<Rightarrow> nat \<Rightarrow> (error + TuplePose) option \<times> real" where
  "retry_loop tf reference_frame frame timeout elapsed n =
     (if elapsed < timeout then
        (let elapsed' = elapsed + 1 + real (retry_overrun tf n) / 1000000 in
         case lookupTransform tf reference_frame frame n of
           Inr pose \<Rightarrow> (Some (Inr pose), elapsed')
         | Inl e \<Rightarrow>
             (if e = LookupException
              then retry_loop tf reference_frame frame timeout elapsed' (Suc n)
              else (Some (Inl (Raised e)), elapsed')))
      else (None, elapsed))"
  by pat_completeness auto
termination
proof (relation "measure (\<lambda>(tf, reference_frame, frame, timeout, elapsed, n). nat \<lceil>timeout - elapsed\<rceil>)")
  show "wf (measure (\<lambda>(tf, reference_frame, frame, timeout, elapsed, n). nat \<lceil>timeout - elapsed\<rceil>))"
    by simp
next
  fix tf :: tf_env and reference_frame frame :: string and timeout elapsed x :: real
    and n :: nat
  assume lt: "elapsed < timeout"
    and x: "x = elapsed + 1 + real (retry_overrun tf n) / 1000000"
  have "timeout - x \<le> (timeout - elapsed) - 1"
    using x by simp
  then have "\<lceil>timeout - x\<rceil> \<le> \<lceil>timeout - elapsed\<rceil> - 1"
    by (metis ceiling_diff_one ceiling_mono)
  moreover have "0 < \<lceil>timeout - elapsed\<rceil>"
    using lt by simp
  ultimately have "nat \<lceil>timeout - x\<rceil> < nat \<lceil>timeout - elapsed\<rceil>"
    by linarith
  then show "((tf, reference_frame, frame, timeout, x, Suc n),
              (tf, reference_frame, frame, timeout, elapsed, n))
             \<in> measure (\<lambda>(tf, reference_frame, frame, timeout, elapsed, n). nat \<lceil>timeout - elapsed\<rceil>)"
    by simp
qed

text \<open>
  \<^verbatim>\<open>Base.get_pose\<close> (lines 49-69), with \<^verbatim>\<open>self._namespace\<close> as a parameter. The second
  component of the result is the time elapsed since \<^verbatim>\<open>time_start\<close> when the call ends
  (0 when the retry branch is not entered).
\<close>

definition get_pose ::
  "tf_env \<Rightarrow> string \<Rightarrow> string \<Rightarrow> string \<Rightarrow> real \<Rightarrow> (error + TuplePose) \<times> real" where
  "get_pose tf namespace reference_frame robot_frame timeout =
     (case lookupTransform tf reference_frame (namespace @ robot_frame) 0 of
        Inr pose \<Rightarrow> (Inr pose, 0)
      | Inl e \<Rightarrow>
          (if e = LookupException \<or> e = ExtrapolationException then
             (case (if timeout \<noteq> 0
                    then retry_loop tf reference_frame (namespace @ robot_frame) timeout 0 1
                    else (None, 0)) of
                (Some r, t) \<Rightarrow> (r, t)
              | (None, t) \<Rightarrow> (Inl (expect e), t))
           else (Inl (Raised e), 0)))"

section \<open>Concrete instances\<close>

text \<open>
  An instance of the parameters, for evaluating the definitions at concrete inputs.
  \<open>example_quaternion\<close> stands in for \<^verbatim>\<open>tf.transformations.quaternion_from_euler\<close> with
  its first-order approximation, which can be evaluated; generated names count the
  entries of the store.
\<close>

definition example_quaternion :: "real \<Rightarrow> real \<Rightarrow> real \<Rightarrow> real \<times> real \<times> real \<times> real" where
  "example_quaternion roll pitch yaw = (roll / 2, pitch / 2, yaw / 2, 1)"

definition example_env :: env where
  "example_env =
     \<lparr>move_base_available = True,
      quaternion_from_euler = example_quaternion,
      time_now = 0,
      goal_status = (\<lambda>g t. 3),
      generic_waypoint_name = (\<lambda>store pose. ''waypoint'' @ replicate (Suc (length store)) (CHR ''i'')),
      get_custom_waypoint_name = (\<lambda>store pose. map_of (map (\<lambda>(n, p). (p, n)) store) pose),
      waypoints_to_str = (\<lambda>store. concat (map (\<lambda>(n, p). n @ newline) store)),
      str_of_pose = (\<lambda>pose. ''(pose)''),
      str_of_float = (\<lambda>r. ''(float)'')\<rparr>"

definition offline_env :: env where
  "offline_env = example_env\<lparr>move_base_available := False\<rparr>"

definition dock :: TuplePose where
  "dock = ((0, 0, 0), (0, 0, 0, 1))"

definition example_world :: world where
  "example_world = \<lparr>waypoints = [(''dock'', dock)], nav_connected = False, rospy_log = [], sent = []\<rparr>"

definition empty_world :: world where
  "empty_world = \<lparr>waypoints = [], nav_connected = False, rospy_log = [], sent = []\<rparr>"

definition example_goal :: MoveBaseGoal where
  "example_goal =
     \<lparr>target_pose = \<lparr>ps_header = \<lparr>header_frame_id = ''map'', header_stamp = 0\<rparr>,
                     ps_pose = to_pose ((1, 2, 0), (0, 0, 0, 1))\<rparr>\<rparr>"

definition dock_goal :: MoveBaseGoal where
  "dock_goal =
     \<lparr>target_pose = \<lparr>ps_header = \<lparr>header_frame_id = ''map'', header_stamp = 0\<rparr>,
                     ps_pose = to_pose dock\<rparr>\<rparr>"

text \<open>Pose services: one that fails every attempt with the given exception, without overrun.\<close>

definition failing_tf :: "exc \<Rightarrow> tf_env" where
  "failing_tf e = \<lparr>lookupTransform = (\<lambda>reference_frame frame n. Inl e), retry_overrun = (\<lambda>n. 0)\<rparr>"

text \<open>A pose service whose initial attempt fails with \<open>e0\<close> and whose retries fail with \<open>e\<close>.\<close>

definition failing_then_tf :: "exc \<Rightarrow> exc \<Rightarrow> tf_env" where
  "failing_then_tf e0 e =
     \<lparr>lookupTransform = (\<lambda>reference_frame frame n. if n = 0 then Inl e0 else Inl e),
      retry_overrun = (\<lambda>n. 0)\<rparr>"

text \<open>Keyword arguments of two calls: a position with coordinates, and an orientation alone.\<close>

definition position_and_coordinates :: kwargs where
  "position_and_coordinates =
     Map.empty(''position'' \<mapsto> PList [PFloat 1, PFloat 2, PFloat 0],
               ''x'' \<mapsto> PFloat 1, ''y'' \<mapsto> PFloat 2, ''yaw'' \<mapsto> PFloat 0)"

definition orientation_only :: kwargs where
  "orientation_only =
     Map.empty(''orientation'' \<mapsto> PList [PFloat 0, PFloat 0, PFloat 0, PFloat 1])"

text \<open>An empty position with coordinates, and integer coordinates with a yaw of \<open>10 ^ 400\<close>.\<close>

definition empty_position_and_coordinates :: kwargs where
  "empty_position_and_coordinates =
     Map.empty(''position'' \<mapsto> PList [],
               ''x'' \<mapsto> PFloat 1, ''y'' \<mapsto> PFloat 2, ''yaw'' \<mapsto> PFloat 0)"

definition huge_yaw :: kwargs where
  "huge_yaw = Map.empty(''x'' \<mapsto> PInt 1, ''y'' \<mapsto> PInt 2, ''yaw'' \<mapsto> PInt (10 ^ 400))"

section \<open>Notions used in the statements\<close>

text \<open>
  The goal \<^verbatim>\<open>move_to_pose\<close> builds for a pose, and the call on the action client that
  \<^verbatim>\<open>move_to_goal\<close> makes for a goal: \<^verbatim>\<open>send_goal_and_wait\<close> without a callback,
  \<^verbatim>\<open>send_goal\<close> with one.
\<close>

definition goal_to :: "env \<Rightarrow> string \<Rightarrow> Pose \<Rightarrow> MoveBaseGoal" where
  "goal_to env frame_id pose =
     \<lparr>target_pose = \<lparr>ps_header = \<lparr>header_frame_id = frame_id, header_stamp = time_now env\<rparr>,
                     ps_pose = pose\<rparr>\<rparr>"

definition send_call :: "MoveBaseGoal \<Rightarrow> real \<Rightarrow> callback option \<Rightarrow> sent_goal" where
  "send_call g timeout done_cb =
     (case done_cb of None \<Rightarrow> SendGoalAndWait g timeout | Some cb \<Rightarrow> SendGoal g cb)"

text \<open>
  Two states agree on everything but the diagnostics: the waypoint store, the connection
  and the calls made on the action client are the same.
\<close>

definition unchanged :: "world \<Rightarrow> world \<Rightarrow> bool" where
  "unchanged s s' =
     (waypoints s' = waypoints s \<and> nav_connected s' = nav_connected s \<and> sent s' = sent s)"

section \<open>The pose representation\<close>

text \<open>The two conversions are mutual inverses (spec 4.1).\<close>

lemma from_pose_to_pose: "from_pose (to_pose tp) = tp"
  by (simp add: from_pose_def to_pose_def)

lemma to_pose_from_pose: "to_pose (from_pose p) = p"
  by (simp add: from_pose_def to_pose_def)

lemma TuplePose_to_pose_canonical:
  "TuplePose_to_pose
     (PTuple [PTuple [PFloat x, PFloat y, PFloat z],
              PTuple [PFloat qx, PFloat qy, PFloat qz, PFloat qw]])
   = Inr (to_pose ((x, y, z), (qx, qy, qz, qw)))"
  by (simp add: TuplePose_to_pose_def as_tuple_pose_def)

section \<open>Resolution of the call shape\<close>

lemmas arg_defs =
  arg_goal_def arg_pose_def arg_position_def arg_orientation_def arg_x_def arg_y_def
  arg_z_def arg_roll_def arg_pitch_def arg_yaw_def dict_get_def u_get_at_def pose_type_def
  isinstance_def

lemma move_partial_pair:
  "partial_pair args kwargs \<Longrightarrow>
   move env args kwargs frame_id timeout done_cb s = (Inl (Expected (ValueError both_message)), s)"
  by (auto simp: partial_pair_def move_def Let_def expect_def)

lemma find_precedence:
  "find P precedence =
     (if P GoalShape then Some GoalShape
      else if P PoseShape then Some PoseShape
      else if P PositionOrientationShape then Some PositionOrientationShape
      else if P CoordinatesShape then Some CoordinatesShape
      else None)"
  by (simp add: precedence_def)

lemma dispatch_pose:
  "dispatch env args kwargs frame_id timeout done_cb s PoseShape =
     (case arg_pose args kwargs of
        PPose p \<Rightarrow> move_to_pose env p frame_id timeout done_cb s
      | _ \<Rightarrow> move_to_tuple_pose env (arg_pose args kwargs) frame_id timeout done_cb s)"
  by (simp split: pyval.splits)

lemma move_eq_spec_move:
  assumes "\<not> partial_pair args kwargs"
  shows "move env args kwargs frame_id timeout done_cb s
           = spec_move env args kwargs frame_id timeout done_cb s"
proof (cases "arg_goal args kwargs = PNone")
  case False
  then show ?thesis
    by (simp add: move_def spec_move_def find_precedence Let_def)
next
  case goal: True
  show ?thesis
  proof (cases "arg_pose args kwargs = PNone")
    case False
    with goal show ?thesis
      by (simp add: move_def spec_move_def find_precedence Let_def dispatch_pose
          del: dispatch.simps)
  next
    case pose: True
    from assms goal pose
    have same: "truthy (arg_position args kwargs) = truthy (arg_orientation args kwargs)"
      by (simp add: partial_pair_def)
    show ?thesis
    proof (cases "truthy (arg_orientation args kwargs)")
      case True
      with goal pose same show ?thesis
        by (simp add: move_def spec_move_def find_precedence Let_def)
    next
      case False
      with goal pose same show ?thesis
        by (simp add: move_def spec_move_def find_precedence Let_def)
    qed
  qed
qed

text \<open>The precedence, shape by shape.\<close>

lemma move_goal_first:
  "arg_goal args kwargs \<noteq> PNone \<Longrightarrow>
   move env args kwargs frame_id timeout done_cb s
     = move_to_goal env (arg_goal args kwargs) timeout done_cb s"
  by (simp add: move_def Let_def)

lemma move_pose_second:
  "arg_goal args kwargs = PNone \<Longrightarrow> arg_pose args kwargs = PPose p \<Longrightarrow>
   move env args kwargs frame_id timeout done_cb s = move_to_pose env p frame_id timeout done_cb s"
  by (simp add: move_def Let_def)

lemma move_tuple_pose_second:
  "arg_goal args kwargs = PNone \<Longrightarrow> arg_pose args kwargs \<noteq> PNone \<Longrightarrow>
   type_of (arg_pose args kwargs) \<noteq> C_Pose \<Longrightarrow>
   move env args kwargs frame_id timeout done_cb s
     = move_to_tuple_pose env (arg_pose args kwargs) frame_id timeout done_cb s"
  by (cases "arg_pose args kwargs") (simp_all add: move_def Let_def)

lemma move_position_orientation_third:
  "arg_goal args kwargs = PNone \<Longrightarrow> arg_pose args kwargs = PNone \<Longrightarrow>
   truthy (arg_position args kwargs) \<Longrightarrow> truthy (arg_orientation args kwargs) \<Longrightarrow>
   move env args kwargs frame_id timeout done_cb s
     = move_to_position_and_orientation env (arg_position args kwargs)
         (arg_orientation args kwargs) frame_id timeout done_cb s"
  by (simp add: move_def Let_def)

lemma move_coordinates_fourth:
  "arg_goal args kwargs = PNone \<Longrightarrow> arg_pose args kwargs = PNone \<Longrightarrow>
   \<not> truthy (arg_position args kwargs) \<Longrightarrow> \<not> truthy (arg_orientation args kwargs) \<Longrightarrow>
   arg_x args kwargs \<noteq> PNone \<Longrightarrow> arg_y args kwargs \<noteq> PNone \<Longrightarrow> arg_yaw args kwargs \<noteq> PNone \<Longrightarrow>
   move env args kwargs frame_id timeout done_cb s
     = move_to_coordinates env (arg_x args kwargs) (arg_y args kwargs) (arg_z args kwargs)
         (arg_roll args kwargs) (arg_pitch args kwargs) (arg_yaw args kwargs)
         frame_id timeout done_cb s"
  by (simp add: move_def Let_def)

lemma move_nothing_complete:
  "arg_goal args kwargs = PNone \<Longrightarrow> arg_pose args kwargs = PNone \<Longrightarrow>
   \<not> truthy (arg_position args kwargs) \<Longrightarrow> \<not> truthy (arg_orientation args kwargs) \<Longrightarrow>
   arg_x args kwargs = PNone \<or> arg_y args kwargs = PNone \<or> arg_yaw args kwargs = PNone \<Longrightarrow>
   move env args kwargs frame_id timeout done_cb s
     = (Inl (Expected (ValueError shapes_message)), s)"
  by (auto simp: move_def Let_def expect_def)

text \<open>
  Claim C1, as amended. \<^verbatim>\<open>move\<close> resolves its arguments by their run-time type and
  count in the fixed precedence goal, pose, position with orientation, coordinates, and
  dispatches the first shape whose required fields are all present (\<open>spec_move\<close>), except
  when neither a goal nor a pose is present and exactly one of position and orientation
  is: then the call fails with InvalidArguments, whether or not \<open>x\<close>, \<open>y\<close> and \<open>yaw\<close> are
  present.
\<close>

theorem move_resolution:
  "(\<not> partial_pair args kwargs \<longrightarrow>
      move env args kwargs frame_id timeout done_cb s
        = spec_move env args kwargs frame_id timeout done_cb s)
   \<and> (partial_pair args kwargs \<longrightarrow>
      move env args kwargs frame_id timeout done_cb s
        = (Inl (Expected (ValueError both_message)), s))"
  using move_eq_spec_move move_partial_pair by blast

theorem move_resolution_witness:
  "\<not> partial_pair [PFloat 1, PFloat 2, PFloat 0] Map.empty
   \<and> move example_env [PFloat 1, PFloat 2, PFloat 0] Map.empty ''map'' 60 None example_world
       = spec_move example_env [PFloat 1, PFloat 2, PFloat 0] Map.empty ''map'' 60 None example_world
   \<and> partial_pair [] position_and_coordinates
   \<and> move example_env [] position_and_coordinates ''map'' 60 None example_world
       = (Inl (Expected (ValueError both_message)), example_world)"
proof -
  have h1: "\<not> partial_pair [PFloat 1, PFloat 2, PFloat 0] Map.empty"
    by (simp add: partial_pair_def arg_defs)
  have h2: "partial_pair [] position_and_coordinates"
    by (simp add: partial_pair_def position_and_coordinates_def arg_defs)
  from h1 h2
    move_resolution [of "[PFloat 1, PFloat 2, PFloat 0]" Map.empty example_env "''map''" 60 None
      example_world]
    move_resolution [of "[]" position_and_coordinates example_env "''map''" 60 None example_world]
  show ?thesis by simp
qed

text \<open>
  Claim C1 as stated fails: in the call
  \<^verbatim>\<open>move(position=[1.0, 2.0, 0.0], x=1.0, y=2.0, yaw=0.0)\<close> the coordinates are the first
  (and only) shape whose required fields are all present, yet nothing is dispatched: the
  call raises the error of lines 208-209, where the specification's reading dispatches
  the coordinates and returns the navigation result.
\<close>

theorem first_complete_shape_counterexample:
  "shape_complete [] position_and_coordinates CoordinatesShape
   \<and> \<not> shape_complete [] position_and_coordinates GoalShape
   \<and> \<not> shape_complete [] position_and_coordinates PoseShape
   \<and> \<not> shape_complete [] position_and_coordinates PositionOrientationShape
   \<and> move example_env [] position_and_coordinates ''map'' 60 None example_world
       = (Inl (Expected (ValueError both_message)), example_world)
   \<and> fst (spec_move example_env [] position_and_coordinates ''map'' 60 None example_world)
       = Inr (PInt 3)"
proof -
  have "move example_env [] position_and_coordinates ''map'' 60 None example_world
       = (Inl (Expected (ValueError both_message)), example_world)"
    by (simp add: move_def Let_def expect_def position_and_coordinates_def arg_defs)
  moreover have "shape_complete [] position_and_coordinates CoordinatesShape
   \<and> \<not> shape_complete [] position_and_coordinates GoalShape
   \<and> \<not> shape_complete [] position_and_coordinates PoseShape
   \<and> \<not> shape_complete [] position_and_coordinates PositionOrientationShape"
    by (simp add: position_and_coordinates_def arg_defs)
  moreover have "spec_move example_env [] position_and_coordinates ''map'' 60 None example_world
     = move_to_coordinates example_env (PFloat 1) (PFloat 2) (PFloat 0) (PFloat 0) (PFloat 0)
         (PFloat 0) ''map'' 60 None example_world"
    by (simp add: spec_move_def precedence_def position_and_coordinates_def arg_defs)
  moreover have "fst (move_to_coordinates example_env (PFloat 1) (PFloat 2) (PFloat 0) (PFloat 0)
         (PFloat 0) (PFloat 0) ''map'' 60 None example_world) = Inr (PInt 3)"
    by (simp add: move_to_coordinates_def py_quaternion_from_euler_def TuplePose_to_pose_def
        as_tuple_pose_def to_pose_def move_to_pose_def move_to_goal_def u_connect_def
        example_env_def example_world_def example_quaternion_def Let_def from_pose_def
        logdebug_def u_add_generic_waypoint_def dock_def)
  ultimately show ?thesis by simp
qed

lemma move_orientation_keyword_only:
  "move env [] (Map.empty(''orientation'' \<mapsto> v)) frame_id timeout done_cb s
     = (Inl (Expected (ValueError (if truthy v then both_message else shapes_message))), s)"
  by (simp add: move_def Let_def expect_def arg_defs)

text \<open>
  Exactly one of position and orientation is not \<^verbatim>\<open>None\<close>: the value counts when it is
  truthy; an empty one is passed over, and the coordinates decide.
\<close>

lemma move_one_supplied:
  assumes "arg_goal args kwargs = PNone" "arg_pose args kwargs = PNone"
    and "(arg_position args kwargs = PNone) \<noteq> (arg_orientation args kwargs = PNone)"
  shows "move env args kwargs frame_id timeout done_cb s =
     (if truthy (arg_position args kwargs) \<or> truthy (arg_orientation args kwargs)
      then (Inl (Expected (ValueError both_message)), s)
      else if arg_x args kwargs = PNone \<or> arg_y args kwargs = PNone \<or> arg_yaw args kwargs = PNone
      then (Inl (Expected (ValueError shapes_message)), s)
      else move_to_coordinates env (arg_x args kwargs) (arg_y args kwargs) (arg_z args kwargs)
             (arg_roll args kwargs) (arg_pitch args kwargs) (arg_yaw args kwargs)
             frame_id timeout done_cb s)"
proof (cases "truthy (arg_position args kwargs) \<or> truthy (arg_orientation args kwargs)")
  case True
  from assms(3) have "\<not> truthy (arg_position args kwargs) \<or> \<not> truthy (arg_orientation args kwargs)"
    by auto
  with True assms(1,2) have "partial_pair args kwargs"
    by (auto simp: partial_pair_def)
  with True show ?thesis
    by (simp add: move_partial_pair)
next
  case False
  with assms(1,2) show ?thesis
    by (auto simp: move_coordinates_fourth move_nothing_complete)
qed

text \<open>
  Claim C2, as amended. Take a call of \<^verbatim>\<open>move\<close> with no goal and no pose in which exactly
  one of position and orientation is supplied, that is bound to a value other than
  \<^verbatim>\<open>None\<close> (by keyword, or positionally as a sequence of floats). If the supplied value is
  truthy (a sequence that is not empty), the call raises the InvalidArguments error and
  leaves the state as it was, whatever \<open>x\<close>, \<open>y\<close> and \<open>yaw\<close> are. If it is falsy (an empty
  sequence), it counts as absent: the call raises InvalidArguments when \<open>x\<close>, \<open>y\<close> and
  \<open>yaw\<close> are not all given, and dispatches the coordinates when they are. The same holds
  of a call by keywords alone. The call with the keyword \<^verbatim>\<open>orientation\<close> alone raises
  InvalidArguments, whatever the orientation is.
\<close>

theorem partial_position_orientation_rejected:
  "(arg_goal args kwargs = PNone \<and> arg_pose args kwargs = PNone
      \<and> (arg_position args kwargs = PNone) \<noteq> (arg_orientation args kwargs = PNone)
    \<longrightarrow> move env args kwargs frame_id timeout done_cb s =
         (if truthy (arg_position args kwargs) \<or> truthy (arg_orientation args kwargs)
          then (Inl (Expected (ValueError both_message)), s)
          else if arg_x args kwargs = PNone \<or> arg_y args kwargs = PNone
                  \<or> arg_yaw args kwargs = PNone
          then (Inl (Expected (ValueError shapes_message)), s)
          else move_to_coordinates env (arg_x args kwargs) (arg_y args kwargs) (arg_z args kwargs)
                 (arg_roll args kwargs) (arg_pitch args kwargs) (arg_yaw args kwargs)
                 frame_id timeout done_cb s))
   \<and> (kwargs ''goal'' = None \<and> kwargs ''pose'' = None
      \<and> ((kwargs ''position'' = Some v \<and> kwargs ''orientation'' = None)
         \<or> (kwargs ''orientation'' = Some v \<and> kwargs ''position'' = None))
      \<and> v \<noteq> PNone
    \<longrightarrow> move env [] kwargs frame_id timeout done_cb s =
         (if truthy v then (Inl (Expected (ValueError both_message)), s)
          else if dict_get kwargs ''x'' PNone = PNone \<or> dict_get kwargs ''y'' PNone = PNone
                  \<or> dict_get kwargs ''yaw'' PNone = PNone
          then (Inl (Expected (ValueError shapes_message)), s)
          else move_to_coordinates env (dict_get kwargs ''x'' PNone) (dict_get kwargs ''y'' PNone)
                 (dict_get kwargs ''z'' (PFloat 0)) (dict_get kwargs ''roll'' (PFloat 0))
                 (dict_get kwargs ''pitch'' (PFloat 0)) (dict_get kwargs ''yaw'' PNone)
                 frame_id timeout done_cb s))
   \<and> move env [] (Map.empty(''orientation'' \<mapsto> v)) frame_id timeout done_cb s
       = (Inl (Expected (ValueError (if truthy v then both_message else shapes_message))), s)"
proof -
  have by_keywords: "move env [] kwargs frame_id timeout done_cb s =
         (if truthy v then (Inl (Expected (ValueError both_message)), s)
          else if dict_get kwargs ''x'' PNone = PNone \<or> dict_get kwargs ''y'' PNone = PNone
                  \<or> dict_get kwargs ''yaw'' PNone = PNone
          then (Inl (Expected (ValueError shapes_message)), s)
          else move_to_coordinates env (dict_get kwargs ''x'' PNone) (dict_get kwargs ''y'' PNone)
                 (dict_get kwargs ''z'' (PFloat 0)) (dict_get kwargs ''roll'' (PFloat 0))
                 (dict_get kwargs ''pitch'' (PFloat 0)) (dict_get kwargs ''yaw'' PNone)
                 frame_id timeout done_cb s)"
    if k: "kwargs ''goal'' = None" "kwargs ''pose'' = None" "v \<noteq> PNone"
      and one: "(kwargs ''position'' = Some v \<and> kwargs ''orientation'' = None)
         \<or> (kwargs ''orientation'' = Some v \<and> kwargs ''position'' = None)"
  proof -
    have g: "arg_goal [] kwargs = PNone" "arg_pose [] kwargs = PNone"
      using k by (simp_all add: arg_defs)
    have sup: "(arg_position [] kwargs = PNone) \<noteq> (arg_orientation [] kwargs = PNone)"
      using k one by (auto simp: arg_defs)
    have tr: "(truthy (arg_position [] kwargs) \<or> truthy (arg_orientation [] kwargs)) = truthy v"
      using one by (auto simp: arg_defs)
    have xs: "arg_x [] kwargs = dict_get kwargs ''x'' PNone"
      "arg_y [] kwargs = dict_get kwargs ''y'' PNone"
      "arg_yaw [] kwargs = dict_get kwargs ''yaw'' PNone"
      "arg_z [] kwargs = dict_get kwargs ''z'' (PFloat 0)"
      "arg_roll [] kwargs = dict_get kwargs ''roll'' (PFloat 0)"
      "arg_pitch [] kwargs = dict_get kwargs ''pitch'' (PFloat 0)"
      by (simp_all add: arg_x_def arg_y_def arg_yaw_def arg_z_def arg_roll_def arg_pitch_def
          u_get_at_def)
    show ?thesis
      unfolding move_one_supplied [OF g sup] tr xs by simp
  qed
  show ?thesis
    using move_one_supplied [of args kwargs env frame_id timeout done_cb s] by_keywords
    by (simp add: move_orientation_keyword_only)
qed

theorem partial_position_orientation_witness:
  "arg_goal [] orientation_only = PNone \<and> arg_pose [] orientation_only = PNone
   \<and> (arg_position [] orientation_only = PNone) \<noteq> (arg_orientation [] orientation_only = PNone)
   \<and> truthy (arg_orientation [] orientation_only)
   \<and> move example_env [] orientation_only ''map'' 60 None example_world
       = (Inl (Expected (ValueError both_message)), example_world)
   \<and> position_and_coordinates ''goal'' = None \<and> position_and_coordinates ''pose'' = None
   \<and> position_and_coordinates ''position'' = Some (PList [PFloat 1, PFloat 2, PFloat 0])
   \<and> position_and_coordinates ''orientation'' = None
   \<and> PList [PFloat 1, PFloat 2, PFloat 0] \<noteq> PNone
   \<and> truthy (PList [PFloat 1, PFloat 2, PFloat 0])
   \<and> move example_env [] position_and_coordinates ''map'' 60 None example_world
       = (Inl (Expected (ValueError both_message)), example_world)"
proof -
  have h: "arg_goal [] orientation_only = PNone \<and> arg_pose [] orientation_only = PNone
   \<and> (arg_position [] orientation_only = PNone) \<noteq> (arg_orientation [] orientation_only = PNone)
   \<and> truthy (arg_orientation [] orientation_only)"
    by (simp add: orientation_only_def arg_defs)
  have k: "position_and_coordinates ''goal'' = None \<and> position_and_coordinates ''pose'' = None
   \<and> position_and_coordinates ''position'' = Some (PList [PFloat 1, PFloat 2, PFloat 0])
   \<and> position_and_coordinates ''orientation'' = None"
    by (simp add: position_and_coordinates_def)
  from partial_position_orientation_rejected
         [of "[]" orientation_only example_env "''map''" 60 None example_world]
       partial_position_orientation_rejected
         [of "[]" position_and_coordinates example_env "''map''" 60 None example_world
            "PList [PFloat 1, PFloat 2, PFloat 0]"]
       h k
  show ?thesis by simp
qed

text \<open>
  Claim C2 as stated fails: in the call \<^verbatim>\<open>move(position=[], x=1.0, y=2.0, yaw=0.0)\<close> a
  position is supplied and no orientation, goal or pose, yet the call raises nothing. The
  empty position is falsy, line 201 takes it for absent, and the coordinates are
  dispatched: the call returns the navigation result and a goal is sent.
\<close>

theorem empty_position_counterexample:
  "arg_goal [] empty_position_and_coordinates = PNone
   \<and> arg_pose [] empty_position_and_coordinates = PNone
   \<and> arg_position [] empty_position_and_coordinates = PList []
   \<and> arg_orientation [] empty_position_and_coordinates = PNone
   \<and> fst (move example_env [] empty_position_and_coordinates ''map'' 60 None example_world)
       = Inr (PInt 3)
   \<and> sent (snd (move example_env [] empty_position_and_coordinates ''map'' 60 None example_world))
       = [SendGoalAndWait
            \<lparr>target_pose =
               \<lparr>ps_header = \<lparr>header_frame_id = ''map'', header_stamp = 0\<rparr>,
                ps_pose = \<lparr>pose_position = (1, 2, 0), pose_orientation = (0, 0, 0, 1)\<rparr>\<rparr>\<rparr>
            60]"
  by (simp add: move_def Let_def empty_position_and_coordinates_def arg_defs
      move_to_coordinates_def py_quaternion_from_euler_def TuplePose_to_pose_def
      as_tuple_pose_def to_pose_def move_to_pose_def move_to_goal_def u_connect_def
      example_env_def example_world_def example_quaternion_def from_pose_def
      logdebug_def u_add_generic_waypoint_def dock_def)

section \<open>Dispatch to the navigation actor\<close>

lemma u_connect_unavailable:
  "\<not> nav_connected s \<Longrightarrow> \<not> move_base_available env \<Longrightarrow> u_connect env s = (False, s)"
  by (simp add: u_connect_def)

lemma u_connect_available:
  "nav_connected s \<or> move_base_available env \<Longrightarrow>
   u_connect env s = (True, s\<lparr>nav_connected := True\<rparr>)"
  by (auto simp: u_connect_def)

lemma move_to_goal_unavailable:
  "\<not> nav_connected s \<Longrightarrow> \<not> move_base_available env \<Longrightarrow>
   move_to_goal env goal timeout done_cb s
     = (Inr PNone, s\<lparr>rospy_log := rospy_log s @ [LogErr ''Did you launch the move_base node?'']\<rparr>)"
  by (simp add: move_to_goal_def u_connect_unavailable logerr_def)

lemma move_to_pose_unavailable:
  "\<not> nav_connected s \<Longrightarrow> \<not> move_base_available env \<Longrightarrow>
   move_to_pose env pose frame_id timeout done_cb s
     = (Inr PNone, s\<lparr>rospy_log := rospy_log s @ [LogErr ''Did you launch the move_base node?'']\<rparr>)"
  by (simp add: move_to_pose_def move_to_goal_unavailable)

lemma move_to_pose_goal_to:
  "move_to_pose env pose frame_id timeout done_cb s
     = move_to_goal env (PGoal (goal_to env frame_id pose)) timeout done_cb s"
  by (simp add: move_to_pose_def goal_to_def)

lemma update_fresh: "k \<notin> set (map fst al) \<Longrightarrow> AList.update k v al = al @ [(k, v)]"
  by (induction al) auto

lemma update_value_mem: "v \<in> set (map snd (AList.update k v al))"
  by (induction al) auto

lemma move_to_goal_waypoints:
  assumes "nav_connected s \<or> move_base_available env"
  shows "waypoints (snd (move_to_goal env (PGoal g) timeout done_cb s)) =
     (if from_pose (ps_pose (target_pose g)) \<notin> set (map snd (waypoints s))
      then AList.update (generic_waypoint_name env (waypoints s) (from_pose (ps_pose (target_pose g))))
             (from_pose (ps_pose (target_pose g))) (waypoints s)
      else waypoints s)"
  using assms
  by (simp add: move_to_goal_def u_connect_available Let_def logdebug_def
      u_add_generic_waypoint_def split: option.splits)

lemma move_to_goal_connected:
  assumes "nav_connected s \<or> move_base_available env"
  shows "nav_connected (snd (move_to_goal env (PGoal g) timeout done_cb s))"
  using assms
  by (simp add: move_to_goal_def u_connect_available Let_def logdebug_def
      u_add_generic_waypoint_def split: option.splits)

lemma move_to_goal_sent:
  assumes "nav_connected s \<or> move_base_available env"
  shows "sent (snd (move_to_goal env (PGoal g) timeout done_cb s))
           = sent s @ [send_call g timeout done_cb]"
  using assms
  by (simp add: move_to_goal_def u_connect_available Let_def logdebug_def
      u_add_generic_waypoint_def send_call_def split: option.splits)

lemma move_to_goal_returns:
  assumes "nav_connected s \<or> move_base_available env"
  shows "fst (move_to_goal env (PGoal g) timeout done_cb s) =
     Inr (case done_cb of None \<Rightarrow> PInt (goal_status env g timeout) | Some cb \<Rightarrow> PNone)"
  using assms
  by (simp add: move_to_goal_def u_connect_available Let_def logdebug_def
      u_add_generic_waypoint_def split: option.splits)

text \<open>
  Claim C3. A movement dispatch with a connection to the navigation actor (one exists or
  can be made) compares the goal's pose with the values of the waypoint store. If no
  stored pose equals it, the store gains exactly one entry, the pose under the generated
  name (a name not in use, as the specification guarantees of generated names), and the
  other entries stay as they are; if the pose is stored already, the store is unchanged.
  Dispatching a goal with the same pose a second time leaves the store as the first
  dispatch left it, so no duplicate is created. In each case the goal is sent to the
  actor once.
\<close>

theorem waypoint_auto_registration:
  assumes "nav_connected s \<or> move_base_available env"
  shows
    "(from_pose (ps_pose (target_pose g)) \<notin> set (map snd (waypoints s))
        \<and> fresh_name env (waypoints s) (from_pose (ps_pose (target_pose g)))
      \<longrightarrow> waypoints (snd (move_to_goal env (PGoal g) timeout done_cb s))
            = waypoints s
              @ [(generic_waypoint_name env (waypoints s) (from_pose (ps_pose (target_pose g))),
                  from_pose (ps_pose (target_pose g)))])
     \<and> (from_pose (ps_pose (target_pose g)) \<in> set (map snd (waypoints s))
      \<longrightarrow> waypoints (snd (move_to_goal env (PGoal g) timeout done_cb s)) = waypoints s)
     \<and> (ps_pose (target_pose g') = ps_pose (target_pose g)
      \<longrightarrow> waypoints (snd (move_to_goal env (PGoal g') timeout' done_cb'
                             (snd (move_to_goal env (PGoal g) timeout done_cb s))))
            = waypoints (snd (move_to_goal env (PGoal g) timeout done_cb s)))
     \<and> sent (snd (move_to_goal env (PGoal g) timeout done_cb s))
         = sent s @ [send_call g timeout done_cb]"
proof -
  let ?pose = "from_pose (ps_pose (target_pose g))"
  let ?s' = "snd (move_to_goal env (PGoal g) timeout done_cb s)"
  have w: "waypoints ?s' =
     (if ?pose \<notin> set (map snd (waypoints s))
      then AList.update (generic_waypoint_name env (waypoints s) ?pose) ?pose (waypoints s)
      else waypoints s)"
    using assms by (rule move_to_goal_waypoints)
  have known: "?pose \<in> set (map snd (waypoints ?s'))"
  proof (cases "?pose \<in> set (map snd (waypoints s))")
    case True
    with w show ?thesis by simp
  next
    case False
    with w have "waypoints ?s' =
        AList.update (generic_waypoint_name env (waypoints s) ?pose) ?pose (waypoints s)"
      by simp
    then show ?thesis by (simp only: update_value_mem)
  qed
  have "nav_connected ?s' \<or> move_base_available env"
    using assms by (simp add: move_to_goal_connected)
  then have again:
    "waypoints (snd (move_to_goal env (PGoal g') timeout' done_cb' ?s')) = waypoints ?s'"
    if "ps_pose (target_pose g') = ps_pose (target_pose g)"
    using known that by (simp add: move_to_goal_waypoints del: set_map)
  show ?thesis
    using w again move_to_goal_sent [OF assms]
    by (simp add: fresh_name_def update_fresh del: set_map)
qed

theorem waypoint_auto_registration_witness:
  "(nav_connected example_world \<or> move_base_available example_env)
   \<and> from_pose (ps_pose (target_pose example_goal)) \<notin> set (map snd (waypoints example_world))
   \<and> fresh_name example_env (waypoints example_world) (from_pose (ps_pose (target_pose example_goal)))
   \<and> waypoints (snd (move_to_goal example_env (PGoal example_goal) 60 None example_world))
       = [(''dock'', dock), (''waypointii'', ((1, 2, 0), (0, 0, 0, 1)))]
   \<and> waypoints (snd (move_to_goal example_env (PGoal example_goal) 60 None
                      (snd (move_to_goal example_env (PGoal example_goal) 60 None example_world))))
       = [(''dock'', dock), (''waypointii'', ((1, 2, 0), (0, 0, 0, 1)))]
   \<and> from_pose (ps_pose (target_pose dock_goal)) \<in> set (map snd (waypoints example_world))
   \<and> waypoints (snd (move_to_goal example_env (PGoal dock_goal) 60 None example_world))
       = [(''dock'', dock)]
   \<and> sent (snd (move_to_goal example_env (PGoal example_goal) 60 None example_world))
       = [SendGoalAndWait example_goal 60]"
proof -
  have h: "nav_connected example_world \<or> move_base_available example_env"
    by (simp add: example_env_def)
  have new: "from_pose (ps_pose (target_pose example_goal)) \<notin> set (map snd (waypoints example_world))"
    by (simp add: example_goal_def example_world_def from_pose_def to_pose_def dock_def)
  have fresh: "fresh_name example_env (waypoints example_world)
                 (from_pose (ps_pose (target_pose example_goal)))"
    by (simp add: fresh_name_def example_env_def example_world_def)
  have old: "from_pose (ps_pose (target_pose dock_goal)) \<in> set (map snd (waypoints example_world))"
    by (simp add: dock_goal_def example_world_def from_pose_def to_pose_def)
  have name: "generic_waypoint_name example_env [(''dock'', dock)] ((1, 2, 0), (0, 0, 0, 1))
                = ''waypointii''"
    by (simp add: example_env_def)
  have pose: "from_pose (ps_pose (target_pose example_goal)) = ((1, 2, 0), (0, 0, 0, 1))"
    by (simp add: example_goal_def from_pose_def to_pose_def)
  have store: "waypoints example_world = [(''dock'', dock)]" "sent example_world = []"
    by (simp_all add: example_world_def)
  from waypoint_auto_registration [OF h, of example_goal 60 None example_goal 60 None]
       waypoint_auto_registration [OF h, of dock_goal 60 None dock_goal 60 None]
       h new fresh old
  show ?thesis
    by (simp add: name pose store send_call_def del: set_map)
qed

lemma move_to_waypoint_unknown:
  assumes "name \<notin> set (map fst (waypoints s))"
  shows "move_to_waypoint env name frame_id timeout done_cb s =
     (Inr PNone,
      s\<lparr>rospy_log := rospy_log s @
          [LogErr (if waypoints s = []
                   then ''No waypoints defined yet, so cannot use waypoint '' @ quote @ name
                        @ quote @ ''.''
                   else ''Waypoint '' @ quote @ name @ quote
                        @ '' does not exist. Available waypoints:''
                        @ newline @ waypoints_to_str env (waypoints s))]\<rparr>)"
proof -
  from assms have "map_of (waypoints s) name = None"
    by (simp add: map_of_eq_None_iff)
  then show ?thesis
    by (simp add: move_to_waypoint_def logerr_def)
qed

text \<open>
  Claim C6. \<^verbatim>\<open>move_to_waypoint\<close> with a name that is not in the waypoint store raises
  nothing and returns \<^verbatim>\<open>None\<close>. It logs one error: on an empty store the message that no
  waypoints are defined yet, otherwise the message that the waypoint does not exist,
  followed by the listing of the store (\<^verbatim>\<open>Storage._waypoints_to_str()\<close>). No call is made
  on the navigation actor.
\<close>

theorem unknown_waypoint_reported:
  assumes "name \<notin> set (map fst (waypoints s))"
  shows "move_to_waypoint env name frame_id timeout done_cb s =
     (Inr PNone,
      s\<lparr>rospy_log := rospy_log s @
          [LogErr (if waypoints s = []
                   then ''No waypoints defined yet, so cannot use waypoint '' @ quote @ name
                        @ quote @ ''.''
                   else ''Waypoint '' @ quote @ name @ quote
                        @ '' does not exist. Available waypoints:''
                        @ newline @ waypoints_to_str env (waypoints s))]\<rparr>)
     \<and> sent (snd (move_to_waypoint env name frame_id timeout done_cb s)) = sent s"
  using move_to_waypoint_unknown [OF assms] by simp

theorem unknown_waypoint_witness:
  "''nonexistent'' \<notin> set (map fst (waypoints empty_world))
   \<and> move_to_waypoint example_env ''nonexistent'' ''map'' 60 None empty_world
       = (Inr PNone,
          empty_world\<lparr>rospy_log :=
            [LogErr (''No waypoints defined yet, so cannot use waypoint '' @ quote
                     @ ''nonexistent'' @ quote @ ''.'')]\<rparr>)
   \<and> sent (snd (move_to_waypoint example_env ''nonexistent'' ''map'' 60 None empty_world)) = []
   \<and> ''nonexistent'' \<notin> set (map fst (waypoints example_world))
   \<and> move_to_waypoint example_env ''nonexistent'' ''map'' 60 None example_world
       = (Inr PNone,
          example_world\<lparr>rospy_log :=
            [LogErr (''Waypoint '' @ quote @ ''nonexistent'' @ quote
                     @ '' does not exist. Available waypoints:'' @ newline
                     @ ''dock'' @ newline)]\<rparr>)"
proof -
  have h1: "''nonexistent'' \<notin> set (map fst (waypoints empty_world))"
    by (simp add: empty_world_def)
  have h2: "''nonexistent'' \<notin> set (map fst (waypoints example_world))"
    by (simp add: example_world_def)
  have e: "waypoints empty_world = []" "rospy_log empty_world = []" "sent empty_world = []"
    "waypoints example_world = [(''dock'', dock)]" "rospy_log example_world = []"
    "waypoints_to_str example_env [(''dock'', dock)] = ''dock'' @ newline"
    by (simp_all add: empty_world_def example_world_def example_env_def)
  from unknown_waypoint_reported [OF h1, of example_env "''map''" 60 None]
       unknown_waypoint_reported [OF h2, of example_env "''map''" 60 None] h1 h2
  show ?thesis
    by (simp add: e del: set_map)
qed

text \<open>
  Claim C7. When the connection to the navigation actor cannot be made (no client is
  connected and the \<^verbatim>\<open>move_base\<close> server is not available), a movement dispatch, through
  \<^verbatim>\<open>move_to_goal\<close> or \<^verbatim>\<open>move_to_pose\<close>, raises nothing: it returns \<^verbatim>\<open>None\<close> and its only
  trace is one error message in the log.
\<close>

theorem navigation_unavailable_logged_not_raised:
  assumes "\<not> nav_connected s" and "\<not> move_base_available env"
  shows "move_to_goal env goal timeout done_cb s
           = (Inr PNone, s\<lparr>rospy_log := rospy_log s @ [LogErr ''Did you launch the move_base node?'']\<rparr>)
         \<and> move_to_pose env pose frame_id timeout done_cb s
           = (Inr PNone, s\<lparr>rospy_log := rospy_log s @ [LogErr ''Did you launch the move_base node?'']\<rparr>)"
  using assms by (simp add: move_to_goal_unavailable move_to_pose_unavailable)

theorem navigation_unavailable_witness:
  "\<not> nav_connected example_world \<and> \<not> move_base_available offline_env
   \<and> move_to_goal offline_env (PGoal example_goal) 60 None example_world
       = (Inr PNone, example_world\<lparr>rospy_log := [LogErr ''Did you launch the move_base node?'']\<rparr>)
   \<and> move_to_pose offline_env (to_pose dock) ''map'' 60 None example_world
       = (Inr PNone, example_world\<lparr>rospy_log := [LogErr ''Did you launch the move_base node?'']\<rparr>)"
proof -
  have h1: "\<not> nav_connected example_world" by (simp add: example_world_def)
  have h2: "\<not> move_base_available offline_env" by (simp add: offline_env_def)
  have "rospy_log example_world = []" by (simp add: example_world_def)
  with navigation_unavailable_logged_not_raised
         [OF h1 h2, of "PGoal example_goal" 60 None "to_pose dock" "''map''"] h1 h2
  show ?thesis by simp
qed

subsection \<open>Calls without effect\<close>

lemma unchanged_refl: "unchanged s s"
  by (simp add: unchanged_def)

lemma unchanged_move_to_goal:
  "\<not> nav_connected s \<Longrightarrow> \<not> move_base_available env \<Longrightarrow>
   unchanged s (snd (move_to_goal env goal timeout done_cb s))"
  by (simp add: move_to_goal_unavailable unchanged_def)

lemma unchanged_move_to_pose:
  "\<not> nav_connected s \<Longrightarrow> \<not> move_base_available env \<Longrightarrow>
   unchanged s (snd (move_to_pose env pose frame_id timeout done_cb s))"
  by (simp add: move_to_pose_def unchanged_move_to_goal)

lemma unchanged_move_to_tuple_pose:
  "\<not> nav_connected s \<Longrightarrow> \<not> move_base_available env \<Longrightarrow>
   unchanged s (snd (move_to_tuple_pose env pose frame_id timeout done_cb s))"
  by (simp add: move_to_tuple_pose_def unchanged_move_to_pose unchanged_refl split: sum.splits)

lemma unchanged_move_to_position_and_orientation:
  "\<not> nav_connected s \<Longrightarrow> \<not> move_base_available env \<Longrightarrow>
   unchanged s
     (snd (move_to_position_and_orientation env position orientation frame_id timeout done_cb s))"
  by (simp add: move_to_position_and_orientation_def unchanged_move_to_pose unchanged_refl
      split: sum.splits)

lemma unchanged_move_to_coordinates:
  "\<not> nav_connected s \<Longrightarrow> \<not> move_base_available env \<Longrightarrow>
   unchanged s (snd (move_to_coordinates env x y z roll pitch yaw frame_id timeout done_cb s))"
  by (simp add: move_to_coordinates_def unchanged_move_to_pose unchanged_refl split: sum.splits)

lemma unchanged_move_to_waypoint:
  assumes "\<not> nav_connected s" "\<not> move_base_available env"
  shows "unchanged s (snd (move_to_waypoint env name frame_id timeout done_cb s))"
proof (cases "map_of (waypoints s) name")
  case None
  then show ?thesis
    by (simp add: move_to_waypoint_def logerr_def unchanged_def)
next
  case (Some wp)
  with assms show ?thesis
    by (simp add: move_to_waypoint_def unchanged_move_to_pose)
qed

lemma unchanged_move:
  assumes "\<not> nav_connected s" "\<not> move_base_available env"
  shows "unchanged s (snd (move env args kwargs frame_id timeout done_cb s))"
proof (cases "arg_pose args kwargs")
  case (PPose p)
  with assms show ?thesis
    by (simp add: move_def Let_def unchanged_refl unchanged_move_to_goal unchanged_move_to_pose)
qed (use assms in \<open>simp_all add: move_def Let_def unchanged_refl unchanged_move_to_goal
      unchanged_move_to_tuple_pose unchanged_move_to_position_and_orientation
      unchanged_move_to_coordinates\<close>)

lemma unchanged_unknown_waypoint:
  assumes "name \<notin> set (map fst (waypoints s))"
  shows "unchanged s (snd (move_to_waypoint env name frame_id timeout done_cb s))"
  using move_to_waypoint_unknown [OF assms] by (simp add: unchanged_def)

text \<open>
  Claim C8. A movement call that meets a navigation backend it cannot connect to, through
  any entry point (\<^verbatim>\<open>move\<close> with any arguments, \<^verbatim>\<open>move_to_waypoint\<close>, \<^verbatim>\<open>move_to_goal\<close>), and
  a \<^verbatim>\<open>move_to_waypoint\<close> call with an unknown name, leave the waypoint store, the
  connection and the calls made on the navigation actor exactly as they were: nothing is
  registered and no goal is sent. Only the diagnostics grow (claims C6 and C7 give the
  message).
\<close>

theorem no_effect_when_unavailable_or_unknown:
  "(\<not> nav_connected s \<and> \<not> move_base_available env \<longrightarrow>
      unchanged s (snd (move env args kwargs frame_id timeout done_cb s))
      \<and> unchanged s (snd (move_to_waypoint env name frame_id timeout done_cb s))
      \<and> unchanged s (snd (move_to_goal env goal timeout done_cb s)))
   \<and> (name \<notin> set (map fst (waypoints s)) \<longrightarrow>
      unchanged s (snd (move_to_waypoint env name frame_id timeout done_cb s)))"
  by (simp add: unchanged_move unchanged_move_to_waypoint unchanged_move_to_goal
      unchanged_unknown_waypoint del: set_map)

theorem no_effect_witness:
  "\<not> nav_connected example_world \<and> \<not> move_base_available offline_env
   \<and> unchanged example_world
        (snd (move offline_env [PFloat 1, PFloat 2, PFloat 0] Map.empty ''map'' 60 None example_world))
   \<and> unchanged example_world
        (snd (move_to_waypoint offline_env ''dock'' ''map'' 60 None example_world))
   \<and> unchanged example_world
        (snd (move_to_goal offline_env (PGoal example_goal) 60 None example_world))
   \<and> ''nonexistent'' \<notin> set (map fst (waypoints example_world))
   \<and> unchanged example_world
        (snd (move_to_waypoint example_env ''nonexistent'' ''map'' 60 None example_world))"
proof -
  have h1: "\<not> nav_connected example_world" by (simp add: example_world_def)
  have h2: "\<not> move_base_available offline_env" by (simp add: offline_env_def)
  have h3: "''nonexistent'' \<notin> set (map fst (waypoints example_world))"
    by (simp add: example_world_def)
  from no_effect_when_unavailable_or_unknown
         [of example_world offline_env "[PFloat 1, PFloat 2, PFloat 0]" Map.empty "''map''" 60 None
            "''dock''" "PGoal example_goal"]
       no_effect_when_unavailable_or_unknown
         [of example_world example_env "[]" Map.empty "''map''" 60 None "''nonexistent''" PNone]
       h1 h2 h3
  show ?thesis by (simp del: set_map)
qed

section \<open>The coordinate shapes\<close>

lemma overflow_bound_large: "(2::int) ^ 53 < overflow_bound"
  by (simp add: overflow_bound_def)

lemma py_float_small_int: "\<bar>c\<bar> \<le> 2 ^ 53 \<Longrightarrow> py_float (PInt c) = Inr (of_int c)"
  using overflow_bound_large by (simp add: nearest_double_def)

lemma number_value_cases:
  assumes "number_value v = Inr a"
  obtains r where "v = PFloat r" | i where "v = PInt i" | b where "v = PBool b"
  using assms by (cases v) simp_all

lemma move_to_coordinates_numeric:
  assumes "number_value vx = Inr x" "number_value vy = Inr y" "number_value vz = Inr z"
    "py_float vroll = Inr roll" "py_float vpitch = Inr pitch" "py_float vyaw = Inr yaw"
  shows "move_to_coordinates env vx vy vz vroll vpitch vyaw frame_id timeout done_cb s
     = move_to_pose env
         \<lparr>pose_position = (x, y, z), pose_orientation = quaternion_from_euler env roll pitch yaw\<rparr>
         frame_id timeout done_cb s"
  using assms
  by (cases "quaternion_from_euler env roll pitch yaw")
     (simp add: move_to_coordinates_def py_quaternion_from_euler_def TuplePose_to_pose_def
        as_tuple_pose_def to_pose_def)

lemma move_to_coordinates_yaw_raises:
  assumes "py_float vyaw = Inl e"
  shows "move_to_coordinates env vx vy vz (PFloat 0) (PFloat 0) vyaw frame_id timeout done_cb s
     = (Inl (Raised e), s)"
  using assms by (simp add: move_to_coordinates_def py_quaternion_from_euler_def)

lemma move_positional_floats:
  "move env [PFloat x, PFloat y, PFloat yaw] Map.empty frame_id timeout done_cb s
     = move_to_coordinates env (PFloat x) (PFloat y) (PFloat 0) (PFloat 0) (PFloat 0) (PFloat yaw)
         frame_id timeout done_cb s"
  by (simp add: move_def Let_def arg_defs)

lemma move_positional_floats_pose:
  "move env [PFloat x, PFloat y, PFloat yaw] Map.empty frame_id timeout done_cb s
     = move_to_pose env
         \<lparr>pose_position = (x, y, 0), pose_orientation = quaternion_from_euler env 0 0 yaw\<rparr>
         frame_id timeout done_cb s"
  by (simp add: move_positional_floats move_to_coordinates_numeric)

lemma move_keyword_coordinates:
  "vx \<noteq> PNone \<Longrightarrow> vy \<noteq> PNone \<Longrightarrow> vyaw \<noteq> PNone \<Longrightarrow>
   move env [] (Map.empty(''x'' \<mapsto> vx, ''y'' \<mapsto> vy, ''yaw'' \<mapsto> vyaw)) frame_id timeout done_cb s
     = move_to_coordinates env vx vy (PFloat 0) (PFloat 0) (PFloat 0) vyaw
         frame_id timeout done_cb s"
  by (simp add: move_def Let_def arg_defs)

lemma move_positional_integers:
  "move env [PInt a, PInt b, PInt c] Map.empty frame_id timeout done_cb s
     = (Inl (Expected (ValueError shapes_message)), s)"
  by (simp add: move_def Let_def arg_defs expect_def)

text \<open>Three positional numbers of which one is not a float: no shape is recognised.\<close>

lemma move_positional_numbers_not_floats:
  assumes "number_value v1 = Inr a" "number_value v2 = Inr b" "number_value v3 = Inr c"
    and "type_of v1 \<noteq> C_float \<or> type_of v2 \<noteq> C_float \<or> type_of v3 \<noteq> C_float"
  shows "move env [v1, v2, v3] Map.empty frame_id timeout done_cb s
     = (Inl (Expected (ValueError shapes_message)), s)"
proof -
  have none: "arg_goal [v1, v2, v3] Map.empty = PNone" "arg_pose [v1, v2, v3] Map.empty = PNone"
    "arg_position [v1, v2, v3] Map.empty = PNone" "arg_orientation [v1, v2, v3] Map.empty = PNone"
    using assms(1,2)
    by (auto elim!: number_value_cases simp: arg_defs)
  have xs: "arg_x [v1, v2, v3] Map.empty = (if type_of v1 = C_float then v1 else PNone)"
    "arg_y [v1, v2, v3] Map.empty = (if type_of v2 = C_float then v2 else PNone)"
    "arg_yaw [v1, v2, v3] Map.empty = (if type_of v3 = C_float then v3 else PNone)"
    by (simp_all add: arg_defs)
  from assms(4) have "arg_x [v1, v2, v3] Map.empty = PNone \<or> arg_y [v1, v2, v3] Map.empty = PNone
      \<or> arg_yaw [v1, v2, v3] Map.empty = PNone"
    unfolding xs by auto
  with none show ?thesis
    by (simp add: move_nothing_complete)
qed

lemma move_to_pose_sent:
  "nav_connected s \<or> move_base_available env \<Longrightarrow>
   sent (snd (move_to_pose env pose frame_id timeout done_cb s))
     = sent s @ [send_call (goal_to env frame_id pose) timeout done_cb]"
  by (simp add: move_to_pose_goal_to move_to_goal_sent)

text \<open>
  \<^verbatim>\<open>_get_at\<close> for the class \<^verbatim>\<open>float\<close>: the element comes back when it is there and its
  run-time type is exactly \<^verbatim>\<open>float\<close>, and \<^verbatim>\<open>None\<close> otherwise.
\<close>

lemma u_get_at_float:
  "u_get_at args i (TClass C_float)
     = (if i < length args \<and> type_of (args ! i) = C_float then args ! i else PNone)"
  by (auto simp: u_get_at_def isinstance_def)

text \<open>
  Claim C9, as amended. The call \<^verbatim>\<open>move(x, y, yaw)\<close> whose three positional arguments are
  floats, and the call with the keywords \<^verbatim>\<open>x\<close>, \<^verbatim>\<open>y\<close>, \<^verbatim>\<open>yaw\<close> bound to numbers of which
  the yaw converts to a float, is the movement to the pose with position \<open>(x, y, 0)\<close> and
  orientation \<^verbatim>\<open>quaternion_from_euler(0, 0, yaw)\<close>: \<open>z\<close>, roll and pitch are exactly 0, and
  with a connection to the navigation actor the goal sent carries this pose. The call
  \<^verbatim>\<open>move(x, y, yaw)\<close> with three positional numbers of which one is not a float (an
  integer or a boolean) dispatches nothing: it raises the InvalidArguments error and
  leaves the state as it was.
\<close>

theorem three_coordinates_goal_pose:
  "move env [PFloat x, PFloat y, PFloat yaw] Map.empty frame_id timeout done_cb s
     = move_to_pose env
         \<lparr>pose_position = (x, y, 0), pose_orientation = quaternion_from_euler env 0 0 yaw\<rparr>
         frame_id timeout done_cb s
   \<and> (number_value vx = Inr x \<and> number_value vy = Inr y \<and> py_float vyaw = Inr yaw \<longrightarrow>
        move env [] (Map.empty(''x'' \<mapsto> vx, ''y'' \<mapsto> vy, ''yaw'' \<mapsto> vyaw)) frame_id timeout done_cb s
          = move_to_pose env
              \<lparr>pose_position = (x, y, 0), pose_orientation = quaternion_from_euler env 0 0 yaw\<rparr>
              frame_id timeout done_cb s)
   \<and> (nav_connected s \<or> move_base_available env \<longrightarrow>
        sent (snd (move env [PFloat x, PFloat y, PFloat yaw] Map.empty frame_id timeout done_cb s))
          = sent s
            @ [send_call
                 (goal_to env frame_id
                    \<lparr>pose_position = (x, y, 0),
                     pose_orientation = quaternion_from_euler env 0 0 yaw\<rparr>)
                 timeout done_cb])
   \<and> (number_value v1 = Inr a \<and> number_value v2 = Inr b \<and> number_value v3 = Inr c
        \<and> (type_of v1 \<noteq> C_float \<or> type_of v2 \<noteq> C_float \<or> type_of v3 \<noteq> C_float) \<longrightarrow>
        move env [v1, v2, v3] Map.empty frame_id timeout done_cb s
          = (Inl (Expected (ValueError shapes_message)), s))"
proof -
  have keyword:
    "move env [] (Map.empty(''x'' \<mapsto> vx, ''y'' \<mapsto> vy, ''yaw'' \<mapsto> vyaw)) frame_id timeout done_cb s
       = move_to_pose env
           \<lparr>pose_position = (x, y, 0), pose_orientation = quaternion_from_euler env 0 0 yaw\<rparr>
           frame_id timeout done_cb s"
    if "number_value vx = Inr x" "number_value vy = Inr y" "py_float vyaw = Inr yaw"
  proof -
    from that have "vx \<noteq> PNone" "vy \<noteq> PNone" "vyaw \<noteq> PNone" by auto
    then show ?thesis
      using that by (simp add: move_keyword_coordinates move_to_coordinates_numeric)
  qed
  show ?thesis
    using keyword move_positional_numbers_not_floats [of v1 a v2 b v3 c env frame_id timeout done_cb s]
    by (simp add: move_positional_floats_pose move_to_pose_sent)
qed

theorem three_coordinates_witness:
  "move example_env [PFloat 1, PFloat 2, PFloat 0] Map.empty ''map'' 60 None example_world
     = move_to_pose example_env \<lparr>pose_position = (1, 2, 0), pose_orientation = (0, 0, 0, 1)\<rparr>
         ''map'' 60 None example_world
   \<and> number_value (PInt 1) = Inr 1 \<and> number_value (PFloat 2) = Inr 2 \<and> py_float (PInt 0) = Inr 0
   \<and> move example_env [] (Map.empty(''x'' \<mapsto> PInt 1, ''y'' \<mapsto> PFloat 2, ''yaw'' \<mapsto> PInt 0))
       ''map'' 60 None example_world
     = move_to_pose example_env \<lparr>pose_position = (1, 2, 0), pose_orientation = (0, 0, 0, 1)\<rparr>
         ''map'' 60 None example_world
   \<and> (nav_connected example_world \<or> move_base_available example_env)
   \<and> sent (snd (move example_env [PFloat 1, PFloat 2, PFloat 0] Map.empty ''map'' 60 None
                   example_world))
     = [SendGoalAndWait
          \<lparr>target_pose =
             \<lparr>ps_header = \<lparr>header_frame_id = ''map'', header_stamp = 0\<rparr>,
              ps_pose = \<lparr>pose_position = (1, 2, 0), pose_orientation = (0, 0, 0, 1)\<rparr>\<rparr>\<rparr>
          60]
   \<and> number_value (PFloat 1) = Inr 1 \<and> number_value (PBool True) = Inr 1
   \<and> type_of (PBool True) \<noteq> C_float
   \<and> move example_env [PFloat 1, PFloat 2, PBool True] Map.empty ''map'' 60 None example_world
     = (Inl (Expected (ValueError shapes_message)), example_world)"
proof -
  have q: "quaternion_from_euler example_env 0 0 0 = (0, 0, 0, 1)"
    "time_now example_env = 0" "move_base_available example_env"
    by (simp_all add: example_env_def example_quaternion_def)
  have w: "sent example_world = []" by (simp add: example_world_def)
  have z: "py_float (PInt 0) = Inr 0" using py_float_small_int [of 0] by simp
  from three_coordinates_goal_pose
         [of example_env 1 2 0 "''map''" 60 None example_world "PInt 1" "PFloat 2" "PInt 0"
            "PFloat 1" 1 "PFloat 2" 2 "PBool True" 1]
       z
  show ?thesis
    by (simp add: q w goal_to_def send_call_def move_to_pose_sent)
qed

text \<open>
  Claim C9 as stated fails: in the call \<^verbatim>\<open>move(1.0, 2.0, 0)\<close> the three coordinates are
  numbers, yet no goal is dispatched. The yaw is an integer, \<^verbatim>\<open>_get_at\<close> does not take it
  for a float, and the call raises the error of lines 203-204.
\<close>

theorem integer_yaw_counterexample:
  "number_value (PFloat 1) = Inr 1 \<and> number_value (PFloat 2) = Inr 2
   \<and> number_value (PInt 0) = Inr 0
   \<and> move example_env [PFloat 1, PFloat 2, PInt 0] Map.empty ''map'' 60 None example_world
       = (Inl (Expected (ValueError shapes_message)), example_world)
   \<and> sent (snd (move example_env [PFloat 1, PFloat 2, PInt 0] Map.empty ''map'' 60 None
                   example_world)) = []"
  by (simp add: move_def Let_def arg_defs expect_def example_world_def)

lemma move_keyword_integers:
  "move env [] (Map.empty(''x'' \<mapsto> PInt a, ''y'' \<mapsto> PInt b, ''yaw'' \<mapsto> PInt c))
       frame_id timeout done_cb s
     = (if overflow_bound \<le> \<bar>c\<bar> then (Inl (Raised OverflowError), s)
        else move_to_pose env
               \<lparr>pose_position = (of_int a, of_int b, 0),
                pose_orientation = quaternion_from_euler env 0 0 (nearest_double c)\<rparr>
               frame_id timeout done_cb s)"
  by (simp add: move_keyword_coordinates move_to_coordinates_numeric
      move_to_coordinates_yaw_raises)

text \<open>
  Claim C10, as amended. A positional coordinate is matched by its run-time type, which
  must be exactly \<^verbatim>\<open>float\<close>: three positional floats are recognised and dispatched, and
  the call \<^verbatim>\<open>move(a, b, c)\<close> with three integers raises the InvalidArguments error naming
  the four shapes and leaves the state as it was. The same integers given by the keywords
  \<^verbatim>\<open>x\<close>, \<^verbatim>\<open>y\<close>, \<^verbatim>\<open>yaw\<close> pass unchecked. When the yaw is within the range of a float (its
  absolute value is below \<open>2 ^ 1024 - 2 ^ 970\<close>), they are dispatched: the call is the
  movement to the pose \<open>(a, b, 0)\<close> with the yaw converted to a float (the yaw itself up
  to \<open>2 ^ 53\<close>), and with a connection to the navigation actor its goal is sent. When the
  yaw is beyond that range, \<^verbatim>\<open>quaternion_from_euler\<close> raises \<^verbatim>\<open>OverflowError\<close> and nothing is
  dispatched.
\<close>

theorem integer_coordinates:
  "u_get_at args i (TClass C_float)
     = (if i < length args \<and> type_of (args ! i) = C_float then args ! i else PNone)
   \<and> move env [PFloat x, PFloat y, PFloat yaw] Map.empty frame_id timeout done_cb s
       = move_to_pose env
           \<lparr>pose_position = (x, y, 0), pose_orientation = quaternion_from_euler env 0 0 yaw\<rparr>
           frame_id timeout done_cb s
   \<and> move env [PInt a, PInt b, PInt c] Map.empty frame_id timeout done_cb s
       = (Inl (Expected (ValueError shapes_message)), s)
   \<and> move env [] (Map.empty(''x'' \<mapsto> PInt a, ''y'' \<mapsto> PInt b, ''yaw'' \<mapsto> PInt c))
         frame_id timeout done_cb s
       = (if overflow_bound \<le> \<bar>c\<bar> then (Inl (Raised OverflowError), s)
          else move_to_pose env
                 \<lparr>pose_position = (of_int a, of_int b, 0),
                  pose_orientation = quaternion_from_euler env 0 0 (nearest_double c)\<rparr>
                 frame_id timeout done_cb s)
   \<and> (\<bar>c\<bar> \<le> 2 ^ 53 \<longrightarrow>
        move env [] (Map.empty(''x'' \<mapsto> PInt a, ''y'' \<mapsto> PInt b, ''yaw'' \<mapsto> PInt c))
            frame_id timeout done_cb s
          = move_to_pose env
              \<lparr>pose_position = (of_int a, of_int b, 0),
               pose_orientation = quaternion_from_euler env 0 0 (of_int c)\<rparr>
              frame_id timeout done_cb s)
   \<and> (\<bar>c\<bar> < overflow_bound \<and> (nav_connected s \<or> move_base_available env) \<longrightarrow>
        sent (snd (move env [] (Map.empty(''x'' \<mapsto> PInt a, ''y'' \<mapsto> PInt b, ''yaw'' \<mapsto> PInt c))
                     frame_id timeout done_cb s))
          = sent s
            @ [send_call
                 (goal_to env frame_id
                    \<lparr>pose_position = (of_int a, of_int b, 0),
                     pose_orientation = quaternion_from_euler env 0 0 (nearest_double c)\<rparr>)
                 timeout done_cb])"
proof -
  have small: "nearest_double c = of_int c" "\<not> overflow_bound \<le> \<bar>c\<bar>" if "\<bar>c\<bar> \<le> 2 ^ 53"
    using that overflow_bound_large by (simp_all add: nearest_double_def)
  show ?thesis
    using small
    by (simp add: u_get_at_float move_positional_floats_pose move_positional_integers
        move_keyword_integers move_to_pose_sent)
qed

theorem integer_coordinates_witness:
  "move example_env [PInt 1, PInt 2, PInt 0] Map.empty ''map'' 60 None example_world
       = (Inl (Expected (ValueError shapes_message)), example_world)
   \<and> \<bar>0::int\<bar> \<le> 2 ^ 53 \<and> \<bar>0::int\<bar> < overflow_bound
   \<and> (nav_connected example_world \<or> move_base_available example_env)
   \<and> move example_env [] (Map.empty(''x'' \<mapsto> PInt 1, ''y'' \<mapsto> PInt 2, ''yaw'' \<mapsto> PInt 0))
       ''map'' 60 None example_world
     = move_to_pose example_env \<lparr>pose_position = (1, 2, 0), pose_orientation = (0, 0, 0, 1)\<rparr>
         ''map'' 60 None example_world
   \<and> sent (snd (move example_env [] (Map.empty(''x'' \<mapsto> PInt 1, ''y'' \<mapsto> PInt 2, ''yaw'' \<mapsto> PInt 0))
                   ''map'' 60 None example_world))
     = [SendGoalAndWait
          \<lparr>target_pose =
             \<lparr>ps_header = \<lparr>header_frame_id = ''map'', header_stamp = 0\<rparr>,
              ps_pose = \<lparr>pose_position = (1, 2, 0), pose_orientation = (0, 0, 0, 1)\<rparr>\<rparr>\<rparr>
          60]"
proof -
  have q: "quaternion_from_euler example_env 0 0 0 = (0, 0, 0, 1)"
    "time_now example_env = 0" "move_base_available example_env"
    by (simp_all add: example_env_def example_quaternion_def)
  have w: "sent example_world = []" by (simp add: example_world_def)
  have b: "\<bar>0::int\<bar> < overflow_bound" "nearest_double 0 = 0"
    using overflow_bound_large by (simp_all add: nearest_double_def)
  from integer_coordinates [of "[]" 0 example_env 0 0 0 "''map''" 60 None example_world 1 2 0] b
  show ?thesis
    by (simp add: q w goal_to_def send_call_def move_to_pose_sent)
qed

text \<open>
  Claim C10 as stated fails: the integers 1, 2 and \<open>10 ^ 400\<close> given by the keywords
  \<^verbatim>\<open>x\<close>, \<^verbatim>\<open>y\<close>, \<^verbatim>\<open>yaw\<close> pass the resolution, but they are not dispatched: halving the yaw
  in \<^verbatim>\<open>quaternion_from_euler\<close> raises \<^verbatim>\<open>OverflowError\<close>, and the state stays as it was.
\<close>

theorem huge_yaw_counterexample:
  "move example_env [] huge_yaw ''map'' 60 None example_world
     = (Inl (Raised OverflowError), example_world)"
proof -
  have "overflow_bound \<le> \<bar>10 ^ 400 :: int\<bar>"
    by (simp add: overflow_bound_def)
  then show ?thesis
    unfolding huge_yaw_def by (simp add: move_keyword_integers)
qed

section \<open>The pose query\<close>

declare retry_loop.simps [simp del]

lemma retry_loop_success:
  "elapsed < timeout \<Longrightarrow> lookupTransform tf reference_frame frame n = Inr pose \<Longrightarrow>
   retry_loop tf reference_frame frame timeout elapsed n
     = (Some (Inr pose), elapsed + 1 + real (retry_overrun tf n) / 1000000)"
  by (subst retry_loop.simps) (simp add: Let_def)

lemma retry_loop_lookup_failure:
  "elapsed < timeout \<Longrightarrow> lookupTransform tf reference_frame frame n = Inl LookupException \<Longrightarrow>
   retry_loop tf reference_frame frame timeout elapsed n
     = retry_loop tf reference_frame frame timeout
         (elapsed + 1 + real (retry_overrun tf n) / 1000000) (Suc n)"
  by (subst retry_loop.simps) (simp add: Let_def)

lemma retry_loop_other_failure:
  "elapsed < timeout \<Longrightarrow> lookupTransform tf reference_frame frame n = Inl e \<Longrightarrow>
   e \<noteq> LookupException \<Longrightarrow>
   retry_loop tf reference_frame frame timeout elapsed n
     = (Some (Inl (Raised e)), elapsed + 1 + real (retry_overrun tf n) / 1000000)"
  by (subst retry_loop.simps) (simp add: Let_def)

lemma retry_loop_expired:
  "\<not> elapsed < timeout \<Longrightarrow>
   retry_loop tf reference_frame frame timeout elapsed n = (None, elapsed)"
  by (subst retry_loop.simps) simp

text \<open>
  Retries that all fail with \<^verbatim>\<open>tf.LookupException\<close>, without overrun: the loop ends
  without a result when the elapsed time reaches the timeout rounded up to whole seconds.
\<close>

lemma retry_loop_exhausted:
  assumes "\<And>m. n \<le> m \<Longrightarrow> lookupTransform tf reference_frame frame m = Inl LookupException"
    and "\<And>m. retry_overrun tf m = 0"
  shows "retry_loop tf reference_frame frame timeout elapsed n
     = (None, if elapsed < timeout then elapsed + of_int \<lceil>timeout - elapsed\<rceil> else elapsed)"
  using assms
proof (induction tf reference_frame frame timeout elapsed n rule: retry_loop.induct)
  case (1 tf reference_frame frame timeout elapsed n)
  show ?case
  proof (cases "elapsed < timeout")
    case False
    then show ?thesis by (simp add: retry_loop_expired)
  next
    case True
    have fail: "lookupTransform tf reference_frame frame n = Inl LookupException"
      using "1.prems"(1) by simp
    have step: "retry_loop tf reference_frame frame timeout elapsed n
        = retry_loop tf reference_frame frame timeout (elapsed + 1) (Suc n)"
      using retry_loop_lookup_failure [OF True fail] "1.prems"(2) by simp
    have IH: "retry_loop tf reference_frame frame timeout (elapsed + 1) (Suc n)
        = (None, if elapsed + 1 < timeout then elapsed + 1 + of_int \<lceil>timeout - (elapsed + 1)\<rceil>
                 else elapsed + 1)"
      using "1.IH" [OF True _ fail, of "elapsed + 1"] "1.prems" by simp
    show ?thesis
    proof (cases "elapsed + 1 < timeout")
      case more: True
      have "\<lceil>timeout - (elapsed + 1)\<rceil> = \<lceil>timeout - elapsed\<rceil> - 1"
        by (metis ceiling_diff_one diff_diff_eq)
      with step IH True more show ?thesis by simp
    next
      case last: False
      have "\<lceil>timeout - elapsed\<rceil> = 1"
        using True last by (simp add: ceiling_eq_iff)
      with step IH True last show ?thesis by simp
    qed
  qed
qed

text \<open>
  With overruns of at most \<open>bound\<close> microseconds, the loop ends without a result no
  earlier than the timeout and less than one retry period after it.
\<close>

lemma retry_loop_exhausted_bounds:
  assumes "\<And>m. n \<le> m \<Longrightarrow> lookupTransform tf reference_frame frame m = Inl LookupException"
    and "\<And>m. retry_overrun tf m \<le> bound"
    and "elapsed < timeout"
  shows "fst (retry_loop tf reference_frame frame timeout elapsed n) = None
         \<and> timeout \<le> snd (retry_loop tf reference_frame frame timeout elapsed n)
         \<and> snd (retry_loop tf reference_frame frame timeout elapsed n)
             < timeout + 1 + real bound / 1000000"
  using assms
proof (induction tf reference_frame frame timeout elapsed n rule: retry_loop.induct)
  case (1 tf reference_frame frame timeout elapsed n)
  let ?next = "elapsed + 1 + real (retry_overrun tf n) / 1000000"
  have fail: "lookupTransform tf reference_frame frame n = Inl LookupException"
    using "1.prems"(1) by simp
  have step: "retry_loop tf reference_frame frame timeout elapsed n
      = retry_loop tf reference_frame frame timeout ?next (Suc n)"
    using retry_loop_lookup_failure [OF "1.prems"(3) fail] .
  have le: "real (retry_overrun tf n) / 1000000 \<le> real bound / 1000000"
    using "1.prems"(2) [of n] by (simp add: divide_right_mono)
  show ?case
  proof (cases "?next < timeout")
    case True
    have "fst (retry_loop tf reference_frame frame timeout ?next (Suc n)) = None
         \<and> timeout \<le> snd (retry_loop tf reference_frame frame timeout ?next (Suc n))
         \<and> snd (retry_loop tf reference_frame frame timeout ?next (Suc n))
             < timeout + 1 + real bound / 1000000"
      using "1.IH" [OF "1.prems"(3) refl fail refl _ _ True] "1.prems"(1,2) by simp
    with step show ?thesis by simp
  next
    case False
    then have "retry_loop tf reference_frame frame timeout ?next (Suc n) = (None, ?next)"
      by (rule retry_loop_expired)
    with step False "1.prems"(3) le show ?thesis by simp
  qed
qed

text \<open>
  What \<^verbatim>\<open>get_pose\<close> does when the initial attempt fails with a lookup or an extrapolation
  error and every retry fails with a lookup error: PoseUnavailable carrying the first
  error, once the timeout (rounded up to whole seconds) has elapsed; at once for a
  timeout of 0. With \<open>timeout = 2\<close> this is after 2 seconds.
\<close>

lemma get_pose_exhausted:
  assumes first: "lookupTransform tf reference_frame (namespace @ robot_frame) 0 = Inl e"
    and transient: "e = LookupException \<or> e = ExtrapolationException"
    and retries: "\<And>m. 1 \<le> m \<Longrightarrow>
        lookupTransform tf reference_frame (namespace @ robot_frame) m = Inl LookupException"
    and overrun: "\<And>m. retry_overrun tf m = 0"
    and timeout: "0 \<le> timeout"
  shows "get_pose tf namespace reference_frame robot_frame timeout
           = (Inl (Expected e), of_int \<lceil>timeout\<rceil>)"
proof (cases "timeout = 0")
  case True
  with first transient show ?thesis
    by (auto simp: get_pose_def expect_def)
next
  case False
  with timeout have pos: "0 < timeout" by simp
  have "retry_loop tf reference_frame (namespace @ robot_frame) timeout 0 1
          = (None, of_int \<lceil>timeout\<rceil>)"
    using retry_loop_exhausted [of 1 tf reference_frame "namespace @ robot_frame" timeout 0]
      retries overrun pos by simp
  with first transient False show ?thesis
    by (auto simp: get_pose_def expect_def)
qed

lemma get_pose_first_retry_succeeds:
  assumes first: "lookupTransform tf reference_frame (namespace @ robot_frame) 0 = Inl e"
    and transient: "e = LookupException \<or> e = ExtrapolationException"
    and retry: "lookupTransform tf reference_frame (namespace @ robot_frame) 1 = Inr pose"
    and timeout: "0 < timeout"
  shows "get_pose tf namespace reference_frame robot_frame timeout
           = (Inr pose, 1 + real (retry_overrun tf 1) / 1000000)"
  using assms by (auto simp: get_pose_def retry_loop_success)

lemma get_pose_lookup_two_seconds:
  "get_pose (failing_tf LookupException) ''/'' ''map'' ''base_footprint'' 2
     = (Inl (Expected LookupException), 2)"
  using get_pose_exhausted [of "failing_tf LookupException" "''map''" "''/''" "''base_footprint''"
      LookupException 2]
  by (simp add: failing_tf_def)

text \<open>
  An extrapolation error raised by a retry is not caught (line 64 names
  \<^verbatim>\<open>tf.LookupException\<close> only, where line 54 names both): it leaves \<^verbatim>\<open>get_pose\<close> as it is.
\<close>

lemma get_pose_extrapolation_escapes:
  assumes first: "lookupTransform tf reference_frame (namespace @ robot_frame) 0 = Inl e"
    and transient: "e = LookupException \<or> e = ExtrapolationException"
    and retry: "lookupTransform tf reference_frame (namespace @ robot_frame) 1
                  = Inl ExtrapolationException"
    and timeout: "0 < timeout"
  shows "get_pose tf namespace reference_frame robot_frame timeout
           = (Inl (Raised ExtrapolationException), 1 + real (retry_overrun tf 1) / 1000000)"
  using assms by (auto simp: get_pose_def retry_loop_other_failure)

text \<open>
  Claim C4, at the input where the code departs from it. A pose service that fails every
  attempt with an extrapolation error, queried with \<open>timeout = 2\<close>: the call ends after
  the first retry, one second after the first failure, with the extrapolation error
  itself, where the claim has PoseUnavailable after about two seconds.
\<close>

theorem get_pose_extrapolation_every_attempt:
  "get_pose (failing_tf ExtrapolationException) ''/'' ''map'' ''base_footprint'' 2
     = (Inl (Raised ExtrapolationException), 1)"
  by (simp add: get_pose_def failing_tf_def retry_loop.simps)

text \<open>
  Claim C5, at the input where the code departs from it. The initial attempt fails with
  a lookup error and the retry, inside the window of \<open>timeout = 1\<close>, with an
  extrapolation error: the call fails with the extrapolation error as it is, neither
  retried nor turned into PoseUnavailable.
\<close>

theorem get_pose_extrapolation_in_retry:
  "get_pose (failing_then_tf LookupException ExtrapolationException) ''/'' ''map''
       ''base_footprint'' 1
     = (Inl (Raised ExtrapolationException), 1)"
  by (simp add: get_pose_def failing_then_tf_def retry_loop.simps)

end
